theory Spec2Isabelle
  imports Complex_Main "HOL-Library.Multiset" "HOL-Library.Product_Lexorder"
begin

section \<open>Data model of app.py\<close>

text \<open>
  The service fetches per-chain TVL series from one upstream HTTP API, caches them for an
  hour, and reshapes them into per-chain summaries. The model below follows
  \<^verbatim>\<open>src/app.py\<close> function by function. What the program reads from outside (the clock,
  the upstream server, the completion order of the thread pool) is passed in as an argument;
  what it mutates (the two module-level dictionaries) is passed in and returned.
\<close>

definition CHAINS :: "string list" where
  "CHAINS = [''Ethereum'', ''Solana'', ''Near'', ''Bitcoin'', ''Sui'',
             ''Aptos'', ''Arbitrum'', ''Sei'', ''Base'', ''BSC'',
             ''Polygon'', ''Optimism'', ''Fantom'', ''Avalanche'', ''Celo'']"

definition API_URL_TEMPLATE :: "string \<Rightarrow> string" where
  "API_URL_TEMPLATE chain_id =
     ''https://tvl-defillama-service-1094890588015.us-central1.run.app/tvl/'' @ chain_id"

subsection \<open>Numbers\<close>

text \<open>
  A value of the numeric \<^verbatim>\<open>tvl\<close> column and of the program's float arithmetic is a
  float64: NaN (the marker pandas uses for a missing value), one of the two infinities, or
  a finite value, represented by the real it denotes. The sign of zero is not
  represented. Every arithmetic result is rounded to the nearest float64, ties to even,
  and becomes an infinity on overflow.
\<close>

datatype f64 = NaN | NInf | Fin real | PInf

function bit_length :: "int \<Rightarrow> int" where
  "bit_length n = (if n \<le> 0 then 0 else 1 + bit_length (n div 2))"
  by pat_completeness auto
termination
  by (relation "measure nat") auto

declare bit_length.simps [simp del]

text \<open>The exponent \<open>e\<close> of a non-zero real: \<open>2 ^ e \<le> |x| < 2 ^ (e + 1)\<close>.\<close>

definition exponent :: "real \<Rightarrow> int" where
  "exponent x =
     (if 1 \<le> \<bar>x\<bar> then bit_length \<lfloor>\<bar>x\<bar>\<rfloor> - 1
      else - bit_length (\<lceil>1 / \<bar>x\<bar>\<rceil> - 1))"

function pow2_nat :: "int \<Rightarrow> int" where
  "pow2_nat e = (if e \<le> 0 then 1 else 2 * pow2_nat (e - 1))"
  by pat_completeness auto
termination
  by (relation "measure nat") auto

declare pow2_nat.simps [simp del]

definition pow2 :: "int \<Rightarrow> real" where
  "pow2 e = (if 0 \<le> e then of_int (pow2_nat e) else 1 / of_int (pow2_nat (- e)))"

definition round_half_even :: "real \<Rightarrow> int" where
  "round_half_even m =
     (let f = \<lfloor>m\<rfloor>; d = m - of_int f
      in if d < 1 / 2 then f
         else if 1 / 2 < d then f + 1
         else if even f then f else f + 1)"

text \<open>
  The float64 nearest to a real: 53 significant bits, the spacing of the subnormal range
  below \<open>2 ^ (- 1022)\<close>, and an infinity when the rounded value reaches \<open>2 ^ 1024\<close>
  (the exponent is 1024 or more, or it is 1023 and the significand rounds up to
  \<open>2 ^ 53\<close>).
\<close>

definition round64 :: "real \<Rightarrow> f64" where
  "round64 x =
     (if x = 0 then Fin 0
      else
        let e = exponent x;
            q = pow2 (max e (- 1022) - 52);
            r = round_half_even (x / q)
        in if 1024 \<le> e \<or> (e = 1023 \<and> \<bar>r\<bar> = pow2_nat 53)
           then (if 0 < x then PInf else NInf)
           else Fin (of_int r * q))"

fun is_nan :: "f64 \<Rightarrow> bool" where
  "is_nan NaN = True"
| "is_nan _ = False"

fun fneg :: "f64 \<Rightarrow> f64" where
  "fneg NaN = NaN"
| "fneg NInf = PInf"
| "fneg PInf = NInf"
| "fneg (Fin a) = Fin (- a)"

fun fadd :: "f64 \<Rightarrow> f64 \<Rightarrow> f64" where
  "fadd NaN _ = NaN"
| "fadd _ NaN = NaN"
| "fadd (Fin a) (Fin b) = round64 (a + b)"
| "fadd PInf NInf = NaN"
| "fadd NInf PInf = NaN"
| "fadd PInf _ = PInf"
| "fadd _ PInf = PInf"
| "fadd NInf _ = NInf"
| "fadd _ NInf = NInf"

fun fsub :: "f64 \<Rightarrow> f64 \<Rightarrow> f64" where
  "fsub (Fin a) (Fin b) = round64 (a - b)"
| "fsub x y = fadd x (fneg y)"

text \<open>The sign of a value that is not NaN: \<open>-1\<close>, \<open>0\<close> or \<open>1\<close>.\<close>

fun fsign :: "f64 \<Rightarrow> int" where
  "fsign NInf = - 1"
| "fsign PInf = 1"
| "fsign (Fin a) = (if a < 0 then - 1 else if a = 0 then 0 else 1)"
| "fsign NaN = 0"

fun fmul :: "f64 \<Rightarrow> f64 \<Rightarrow> f64" where
  "fmul NaN _ = NaN"
| "fmul _ NaN = NaN"
| "fmul (Fin a) (Fin b) = round64 (a * b)"
| "fmul x y =
     (if fsign x * fsign y = 0 then NaN else if 0 < fsign x * fsign y then PInf else NInf)"

text \<open>
  The program divides only by a value it has tested to be positive. For a zero divisor
  the result below is the one IEEE arithmetic gives for \<open>+0\<close>.
\<close>

fun fdiv :: "f64 \<Rightarrow> f64 \<Rightarrow> f64" where
  "fdiv NaN _ = NaN"
| "fdiv _ NaN = NaN"
| "fdiv (Fin a) (Fin b) =
     (if b = 0 then (if a = 0 then NaN else if 0 < a then PInf else NInf)
      else round64 (a / b))"
| "fdiv (Fin a) _ = Fin 0"
| "fdiv x (Fin b) = (if 0 \<le> fsign x * fsign (Fin b) then x else fneg x)"
| "fdiv _ _ = NaN"

fun flt :: "f64 \<Rightarrow> f64 \<Rightarrow> bool" where
  "flt NaN _ = False"
| "flt _ NaN = False"
| "flt (Fin a) (Fin b) = (a < b)"
| "flt NInf NInf = False"
| "flt NInf _ = True"
| "flt _ NInf = False"
| "flt PInf _ = False"
| "flt _ PInf = True"

definition fgt :: "f64 \<Rightarrow> f64 \<Rightarrow> bool" where
  "fgt x y = flt y x"

definition fge :: "f64 \<Rightarrow> f64 \<Rightarrow> bool" where
  "fge x y \<longleftrightarrow> \<not> is_nan x \<and> \<not> is_nan y \<and> \<not> flt x y"

text \<open>
  The position of a value that is not NaN in the order of the float64 values (used to state
  orderings): pairs are compared lexicographically.
\<close>

fun rank :: "f64 \<Rightarrow> int \<times> real" where
  "rank NInf = (- 1, 0)"
| "rank (Fin a) = (0, a)"
| "rank PInf = (1, 0)"
| "rank NaN = (0, 0)"

subsection \<open>Upstream records, cache, responses\<close>

text \<open>
  A raw point is one record of the upstream array: \<^verbatim>\<open>{date: unix seconds, tvl: number
  or string}\<close>. The payload of a response is the array of raw points
  (\<^verbatim>\<open>response.json()\<close>); a body that is not JSON is \<open>None\<close>. A JSON number is
  the real its literal denotes.
\<close>

datatype json_tvl = JNum real | JStr string | JNull

record raw_point =
  raw_date :: int
  raw_tvl :: json_tvl

type_synonym payload = "raw_point list"

datatype http_result = NetworkError | HttpResponse nat "payload option"

text \<open>
  \<open>tvl_cache\<close> and \<open>cache_time\<close> are the two module-level dictionaries.
  \<open>requests_log\<close> lists the URLs passed to \<^verbatim>\<open>requests.get\<close> so far, oldest first: it
  is how the model observes that a network call was made.
\<close>

record world =
  tvl_cache :: "string \<Rightarrow> payload option"
  cache_time :: "string \<Rightarrow> real option"
  requests_log :: "string list"

text \<open>The upstream server: the answer to a GET of a URL issued at a given clock reading.\<close>

type_synonym network = "string \<Rightarrow> real \<Rightarrow> http_result"

text \<open>One row of the DataFrame built by \<^verbatim>\<open>process_tvl_data\<close>.\<close>

record row =
  date_time :: int
  date :: string
  chain :: string
  tvl :: f64

record tvl_point =
  tp_date :: string
  tp_tvl :: f64

record chain_summary =
  sm_chain :: string
  latest_date :: string
  sm_tvl :: f64
  tvl_change_24h :: f64
  tvl_percent_change_24h :: f64
  history :: "tvl_point list"

record all_tvl =
  timestamp :: string
  total_tvl :: f64
  chains :: "chain_summary list"

record csv_row =
  csv_chain :: string
  csv_date :: string
  csv_tvl :: f64

datatype body =
    ErrorJson string
  | SummaryJson chain_summary
  | AllJson all_tvl
  | CsvText "csv_row list"
  | InternalServerError

type_synonym response = "nat \<times> body"

subsection \<open>The pandas functions the program calls\<close>

text \<open>
  pandas is not part of the repository. The functions the program delegates to it are
  parameters of the model:
  \<^item> \<open>to_datetime_strftime\<close>: \<^verbatim>\<open>pd.to_datetime(_, unit='s')\<close> followed by
    \<^verbatim>\<open>.dt.strftime('%Y-%m-%d')\<close> on one timestamp; \<open>None\<close> when the conversion raises
    (a timestamp outside the range of a pandas datetime);
  \<^item> \<open>to_numeric_str\<close>: the numeric value \<^verbatim>\<open>pd.to_numeric\<close> parses from a string,
    \<open>None\<close> when the string is not numeric;
  \<^item> \<open>argsort_desc\<close>: the row order \<^verbatim>\<open>sort_values('date', ascending=False)\<close> computes
    from the key column (pandas computes an indexer from the keys alone and takes the rows
    by it); the theorems about sorted frames assume of it what \<open>descending_indexer\<close>
    below says, which leaves the order of rows of equal date open;
  \<^item> \<open>lexsort\<close>: the row order of \<^verbatim>\<open>sort_values(['chain', 'date'])\<close>.
\<close>

record pandas =
  to_datetime_strftime :: "int \<Rightarrow> string option"
  to_numeric_str :: "string \<Rightarrow> f64 option"
  argsort_desc :: "string list \<Rightarrow> nat list"
  lexsort :: "(string \<times> string) list \<Rightarrow> nat list"

section \<open>Fetcher\<close>

text \<open>\<^verbatim>\<open>response.raise_for_status()\<close> of requests raises for 4xx and 5xx codes.\<close>

definition raise_for_status :: "nat \<Rightarrow> bool" where
  "raise_for_status status_code \<longleftrightarrow> 400 \<le> status_code \<and> status_code < 600"

text \<open>
  \<^verbatim>\<open>fetch_tvl_data\<close>: every exception inside the \<^verbatim>\<open>try\<close> becomes the result
  \<open>None\<close>. \<^verbatim>\<open>tvl_cache.get(chain_id)\<close> is the lookup in the map. \<open>cache_hit\<close> is the
  condition of line 59: \<^verbatim>\<open>chain_id in cache_time and current_time - cache_time[chain_id] < 3600\<close>.
\<close>

definition cache_hit :: "world \<Rightarrow> real \<Rightarrow> string \<Rightarrow> bool" where
  "cache_hit w current_time chain_id =
     (case cache_time w chain_id of
        Some t \<Rightarrow> current_time - t < 3600
      | None \<Rightarrow> False)"

definition fetch_tvl_data :: "network \<Rightarrow> real \<Rightarrow> string \<Rightarrow> world \<Rightarrow> payload option \<times> world" where
  "fetch_tvl_data net current_time chain_id w =
     (if cache_hit w current_time chain_id
      then (tvl_cache w chain_id, w)
      else
        let api_url = API_URL_TEMPLATE chain_id;
            w1 = w\<lparr>requests_log := requests_log w @ [api_url]\<rparr>
        in case net api_url current_time of
             NetworkError \<Rightarrow> (None, w1)
           | HttpResponse status_code json \<Rightarrow>
               if raise_for_status status_code then (None, w1)
               else (case json of
                       None \<Rightarrow> (None, w1)
                     | Some data \<Rightarrow>
                         (Some data,
                          w1\<lparr>tvl_cache := (tvl_cache w1)(chain_id \<mapsto> data),
                             cache_time := (cache_time w1)(chain_id \<mapsto> current_time)\<rparr>)))"

section \<open>Transformer\<close>

text \<open>
  \<^verbatim>\<open>pd.to_numeric(df['tvl'], errors='coerce')\<close> on one value, read as float64 (the
  program passes every tvl it serves through \<^verbatim>\<open>float()\<close>). pandas holds a column of
  integers only as int64 and subtracts there before the conversion; that differs from the
  float64 subtraction only for integers above \<open>2 ^ 53\<close>.
\<close>

definition to_numeric :: "pandas \<Rightarrow> json_tvl \<Rightarrow> f64" where
  "to_numeric pd v =
     (case v of
        JNum x \<Rightarrow> round64 x
      | JStr s \<Rightarrow> (case to_numeric_str pd s of Some x \<Rightarrow> x | None \<Rightarrow> NaN)
      | JNull \<Rightarrow> NaN)"

text \<open>
  \<^verbatim>\<open>process_tvl_data\<close>: \<open>None\<close> for empty data and when a conversion raises, else
  the frame with the columns \<open>date_time\<close>, \<open>date\<close>, \<open>chain\<close>, \<open>tvl\<close>, one row per raw point
  in the order of the payload.
\<close>

definition process_tvl_data :: "pandas \<Rightarrow> payload \<Rightarrow> string \<Rightarrow> row list option" where
  "process_tvl_data pd data chain_id =
     (if data = [] then None
      else if list_ex (\<lambda>p. to_datetime_strftime pd (raw_date p) = None) data then None
      else Some (map (\<lambda>p. \<lparr>date_time = raw_date p,
                           date = the (to_datetime_strftime pd (raw_date p)),
                           chain = chain_id,
                           tvl = to_numeric pd (raw_tvl p)\<rparr>) data))"

text \<open>Taking rows by an indexer; an index out of range raises.\<close>

definition take_rows :: "'a list \<Rightarrow> nat list \<Rightarrow> 'a list option" where
  "take_rows df indexer =
     (if list_all (\<lambda>i. i < length df) indexer then Some (map (nth df) indexer) else None)"

text \<open>
  An indexer computed by a pandas sort of a frame of \<open>n\<close> rows lists each of the positions
  \<open>0, ..., n - 1\<close> once.
\<close>

definition valid_indexer :: "nat list \<Rightarrow> nat \<Rightarrow> bool" where
  "valid_indexer indexer n \<longleftrightarrow>
     length indexer = n \<and> distinct indexer \<and> list_all (\<lambda>i. i < n) indexer"

text \<open>The order of Python strings: lexicographic by code point.\<close>

fun str_lt :: "string \<Rightarrow> string \<Rightarrow> bool" where
  "str_lt [] [] = False"
| "str_lt [] (y # ys) = True"
| "str_lt (x # xs) [] = False"
| "str_lt (x # xs) (y # ys) =
     ((of_char x :: nat) < of_char y \<or> (x = y \<and> str_lt xs ys))"

text \<open>
  The indexer of a descending sort by a column of strings lists the positions so that no
  key is followed by a greater one. Keys that are equal may come in any order.
\<close>

definition descending_indexer :: "string list \<Rightarrow> nat list \<Rightarrow> bool" where
  "descending_indexer keys indexer \<longleftrightarrow>
     valid_indexer indexer (length keys)
     \<and> sorted_wrt (\<lambda>i j. \<not> str_lt (keys ! i) (keys ! j)) indexer"

definition sort_values_desc :: "pandas \<Rightarrow> ('a \<Rightarrow> string) \<Rightarrow> 'a list \<Rightarrow> 'a list option" where
  "sort_values_desc pd key df = take_rows df (argsort_desc pd (map key df))"

definition iloc :: "'a list \<Rightarrow> nat \<Rightarrow> 'a option" where
  "iloc df i = (if i < length df then Some (df ! i) else None)"

text \<open>
  Lines 114 to 139 of \<^verbatim>\<open>get_tvl_for_chain\<close>, which \<^verbatim>\<open>get_all_tvl\<close> repeats word for
  word (lines 160 to 186): the summary of a non-empty frame. \<open>None\<close> is an exception
  raised on the way. The program sorts the frame once for \<^verbatim>\<open>latest\<close> and once more for
  \<^verbatim>\<open>yesterday\<close>; both calls compute the same frame, named \<open>sorted_df\<close> here.
\<close>

definition summarize :: "pandas \<Rightarrow> string \<Rightarrow> row list \<Rightarrow> chain_summary option" where
  "summarize pd chain_id df =
     (case sort_values_desc pd date df of
        None \<Rightarrow> None
      | Some sorted_df \<Rightarrow>
     (case iloc sorted_df 0 of
        None \<Rightarrow> None
      | Some latest \<Rightarrow>
     (case (if length df > 1
            then (case iloc sorted_df 1 of
                    None \<Rightarrow> None
                  | Some yesterday \<Rightarrow>
                      let change = fsub (tvl latest) (tvl yesterday);
                          percent_change =
                            (if fgt (tvl yesterday) (Fin 0)
                             then fmul (fdiv change (tvl yesterday)) (Fin 100)
                             else Fin 0)
                      in Some (change, percent_change))
            else Some (Fin 0, Fin 0)) of
        None \<Rightarrow> None
      | Some (change, percent_change) \<Rightarrow>
     (case sort_values_desc pd tp_date (map (\<lambda>r. \<lparr>tp_date = date r, tp_tvl = tvl r\<rparr>) df) of
        None \<Rightarrow> None
      | Some history_data \<Rightarrow>
          Some \<lparr>sm_chain = chain_id,
                latest_date = date latest,
                sm_tvl = tvl latest,
                tvl_change_24h = change,
                tvl_percent_change_24h = percent_change,
                history = take 30 history_data\<rparr>))))"

section \<open>Aggregator\<close>

fun join :: "string \<Rightarrow> string list \<Rightarrow> string" where
  "join sep [] = []"
| "join sep [x] = x"
| "join sep (x # y # ys) = x @ sep @ join sep (y # ys)"

text \<open>
  \<^verbatim>\<open>get_tvl_for_chain\<close>. \<^verbatim>\<open>not data\<close> holds for \<^verbatim>\<open>None\<close> and for the empty list.
  An exception that escapes the view function is answered by Flask with status 500.
\<close>

definition get_tvl_for_chain ::
    "pandas \<Rightarrow> network \<Rightarrow> real \<Rightarrow> string \<Rightarrow> world \<Rightarrow> response \<times> world" where
  "get_tvl_for_chain pd net current_time chain_id w =
     (if chain_id \<notin> set CHAINS
      then ((400, ErrorJson (''Invalid chain ID. Supported chains: '' @ join '', '' CHAINS)), w)
      else
        let (data, w') = fetch_tvl_data net current_time chain_id w
        in if data = None \<or> data = Some []
           then ((500, ErrorJson (''Failed to fetch data for '' @ chain_id)), w')
           else (case process_tvl_data pd (the data) chain_id of
                   None \<Rightarrow> ((500, ErrorJson (''Failed to process data for '' @ chain_id)), w')
                 | Some df \<Rightarrow>
                     if df = []
                     then ((500, ErrorJson (''Failed to process data for '' @ chain_id)), w')
                     else (case summarize pd chain_id df of
                             None \<Rightarrow> ((500, InternalServerError), w')
                           | Some result \<Rightarrow> ((200, SummaryJson result), w'))))"

subsection \<open>Sorting a Python list\<close>

text \<open>
  \<^verbatim>\<open>results.sort(key=..., reverse=True)\<close>. On a list of fewer than 64 elements (there
  are at most 15 chains) CPython's \<^verbatim>\<open>list.sort\<close> finds the run the list starts with,
  reverses it if it is strictly descending, and inserts the remaining elements one by one by
  binary search; with \<^verbatim>\<open>reverse=True\<close> it reverses the list before and after. The only
  comparison used is \<open><\<close> on the keys.
\<close>

fun count_asc :: "('a \<Rightarrow> 'a \<Rightarrow> bool) \<Rightarrow> 'a list \<Rightarrow> nat" where
  "count_asc lt (x # y # ys) = (if lt y x then 1 else Suc (count_asc lt (y # ys)))"
| "count_asc lt xs = length xs"

fun count_desc :: "('a \<Rightarrow> 'a \<Rightarrow> bool) \<Rightarrow> 'a list \<Rightarrow> nat" where
  "count_desc lt (x # y # ys) = (if lt y x then Suc (count_desc lt (y # ys)) else 1)"
| "count_desc lt xs = length xs"

definition count_run :: "('a \<Rightarrow> 'a \<Rightarrow> bool) \<Rightarrow> 'a list \<Rightarrow> nat \<times> bool" where
  "count_run lt xs =
     (case xs of
        x # y # _ \<Rightarrow> if lt y x then (count_desc lt xs, True) else (count_asc lt xs, False)
      | _ \<Rightarrow> (length xs, False))"

function bisect :: "('a \<Rightarrow> 'a \<Rightarrow> bool) \<Rightarrow> 'a list \<Rightarrow> 'a \<Rightarrow> nat \<Rightarrow> nat \<Rightarrow> nat" where
  "bisect lt xs pivot l r =
     (if l < r
      then let p = l + (r - l) div 2
           in if lt pivot (xs ! p) then bisect lt xs pivot l p
              else bisect lt xs pivot (p + 1) r
      else l)"
  by pat_completeness auto
termination
  by (relation "measure (\<lambda>(lt, xs, pivot, l, r). r - l)") auto

declare bisect.simps [simp del]

definition binary_insert :: "('a \<Rightarrow> 'a \<Rightarrow> bool) \<Rightarrow> 'a list \<Rightarrow> 'a \<Rightarrow> 'a list" where
  "binary_insert lt xs pivot =
     (let l = bisect lt xs pivot 0 (length xs) in take l xs @ pivot # drop l xs)"

definition binarysort :: "('a \<Rightarrow> 'a \<Rightarrow> bool) \<Rightarrow> 'a list \<Rightarrow> 'a list \<Rightarrow> 'a list" where
  "binarysort lt run rest = foldl (binary_insert lt) run rest"

definition listsort :: "('a \<Rightarrow> 'a \<Rightarrow> bool) \<Rightarrow> 'a list \<Rightarrow> 'a list" where
  "listsort lt xs =
     (let (n, descending) = count_run lt xs;
          run = (if descending then rev (take n xs) else take n xs)
      in binarysort lt run (drop n xs))"

definition list_sort_reverse :: "('a \<Rightarrow> f64) \<Rightarrow> 'a list \<Rightarrow> 'a list" where
  "list_sort_reverse key xs = rev (listsort (\<lambda>a b. flt (key a) (key b)) (rev xs))"

subsection \<open>The two multi-chain endpoints\<close>

text \<open>
  The thread pool runs \<^verbatim>\<open>fetch_tvl_data\<close> once per chain. Each call reads and writes
  only the cache entries of its own chain, so the calls are run here one after the other in
  the order of submission; \<open>clock c\<close> is the clock reading of the call for chain \<open>c\<close>.
  \<open>completed\<close> is the order in which \<^verbatim>\<open>as_completed\<close> yields the futures.
\<close>

fun fetch_all :: "network \<Rightarrow> (string \<Rightarrow> real) \<Rightarrow> string list \<Rightarrow> world
    \<Rightarrow> (string \<times> payload option) list \<times> world" where
  "fetch_all net clock [] w = ([], w)"
| "fetch_all net clock (c # cs) w =
     (let (data, w1) = fetch_tvl_data net (clock c) c w;
          (rest, w2) = fetch_all net clock cs w1
      in ((c, data) # rest, w2))"

definition future_result :: "(string \<times> payload option) list \<Rightarrow> string \<Rightarrow> payload option" where
  "future_result futures c = (case map_of futures c of Some data \<Rightarrow> data | None \<Rightarrow> None)"

text \<open>
  The body of the loop of \<^verbatim>\<open>get_all_tvl\<close> for one chain: the summary, or \<open>None\<close>
  when the chain is skipped (no data, a frame that is \<^verbatim>\<open>None\<close> or empty, or an exception
  caught by the \<^verbatim>\<open>except\<close> of the loop).
\<close>

definition chain_result :: "pandas \<Rightarrow> string \<Rightarrow> payload option \<Rightarrow> chain_summary option" where
  "chain_result pd c data =
     (if data = None \<or> data = Some [] then None
      else (case process_tvl_data pd (the data) c of
              None \<Rightarrow> None
            | Some df \<Rightarrow> if df = [] then None else summarize pd c df))"

fun collect_results :: "pandas \<Rightarrow> (string \<times> payload option) list \<Rightarrow> string list
    \<Rightarrow> chain_summary list \<times> f64 \<Rightarrow> chain_summary list \<times> f64" where
  "collect_results pd futures [] acc = acc"
| "collect_results pd futures (c # cs) (results, running_total) =
     (case chain_result pd c (future_result futures c) of
        Some chain_res \<Rightarrow>
          collect_results pd futures cs (results @ [chain_res], fadd running_total (sm_tvl chain_res))
      | None \<Rightarrow> collect_results pd futures cs (results, running_total))"

definition get_all_tvl ::
    "pandas \<Rightarrow> network \<Rightarrow> (string \<Rightarrow> real) \<Rightarrow> string list \<Rightarrow> string \<Rightarrow> world
     \<Rightarrow> response \<times> world" where
  "get_all_tvl pd net clock completed now_str w =
     (let (futures, w') = fetch_all net clock CHAINS w;
          (results, running_total) = collect_results pd futures completed ([], Fin 0)
      in ((200, AllJson \<lparr>timestamp = now_str,
                          total_tvl = running_total,
                          chains = list_sort_reverse sm_tvl results\<rparr>), w'))"

text \<open>The loop of \<^verbatim>\<open>get_tvl_csv\<close> for one chain: the frame it appends, if any.\<close>

definition chain_csv :: "pandas \<Rightarrow> string \<Rightarrow> payload option \<Rightarrow> csv_row list option" where
  "chain_csv pd c data =
     (if data = None \<or> data = Some [] then None
      else (case process_tvl_data pd (the data) c of
              None \<Rightarrow> None
            | Some df \<Rightarrow>
                if df = [] then None
                else Some (map (\<lambda>r. \<lparr>csv_chain = chain r, csv_date = date r, csv_tvl = tvl r\<rparr>) df)))"

definition get_tvl_csv ::
    "pandas \<Rightarrow> network \<Rightarrow> (string \<Rightarrow> real) \<Rightarrow> string list \<Rightarrow> world \<Rightarrow> response \<times> world" where
  "get_tvl_csv pd net clock completed w =
     (let (futures, w') = fetch_all net clock CHAINS w;
          all_data = List.map_filter (\<lambda>c. chain_csv pd c (future_result futures c)) completed
      in if all_data = []
         then ((500, ErrorJson ''No data available to export''), w')
         else
           let combined_df = concat all_data
           in (case take_rows combined_df
                      (lexsort pd (map (\<lambda>r. (csv_chain r, csv_date r)) combined_df)) of
                 None \<Rightarrow> ((500, InternalServerError), w')
               | Some sorted_df \<Rightarrow> ((200, CsvText sorted_df), w')))"

subsection \<open>Predicates used to state the properties of the endpoints\<close>

text \<open>
  A chain contributes nothing to either multi-chain endpoint when its fetch returned no
  data (\<^verbatim>\<open>None\<close> or an empty array) or \<^verbatim>\<open>process_tvl_data\<close> returned no frame.
\<close>

definition fetch_or_transform_fails :: "pandas \<Rightarrow> string \<Rightarrow> payload option \<Rightarrow> bool" where
  "fetch_or_transform_fails pd c data \<longleftrightarrow>
     data = None \<or> data = Some []
     \<or> process_tvl_data pd (the data) c = None \<or> process_tvl_data pd (the data) c = Some []"

text \<open>Descending by tvl: every summary's tvl is \<open>\<ge>\<close> that of every later one.\<close>

definition sorted_desc_by_tvl :: "chain_summary list \<Rightarrow> bool" where
  "sorted_desc_by_tvl cs = sorted_wrt (\<lambda>a b. fge (sm_tvl a) (sm_tvl b)) cs"

section \<open>A reference instance of the pandas functions\<close>

text \<open>
  To evaluate the program on concrete inputs the parameters need values. The instance
  below converts a timestamp within the range of a nanosecond datetime to its UTC calendar
  date, reads plain decimal digit strings as numbers, and orders rows by the date string with
  an insertion sort (applied, as pandas does for a descending sort, to the reversed column
  and reversed again).
\<close>

definition civil_from_days :: "int \<Rightarrow> int \<times> int \<times> int" where
  "civil_from_days z0 =
     (let z = z0 + 719468;
          era = z div 146097;
          doe = z - era * 146097;
          yoe = (doe - doe div 1460 + doe div 36524 - doe div 146096) div 365;
          y = yoe + era * 400;
          doy = doe - (365 * yoe + yoe div 4 - yoe div 100);
          mp = (5 * doy + 2) div 153;
          d = doy - (153 * mp + 2) div 5 + 1;
          m = (if mp < 10 then mp + 3 else mp - 9)
      in (if m \<le> 2 then y + 1 else y, m, d))"

definition digit_char :: "int \<Rightarrow> char" where
  "digit_char n = ''0123456789'' ! nat (n mod 10)"

definition pad2 :: "int \<Rightarrow> string" where
  "pad2 n = [digit_char (n div 10), digit_char n]"

definition pad4 :: "int \<Rightarrow> string" where
  "pad4 n = [digit_char (n div 1000), digit_char (n div 100), digit_char (n div 10), digit_char n]"

definition ref_to_datetime_strftime :: "int \<Rightarrow> string option" where
  "ref_to_datetime_strftime s =
     (if - 9223372036 \<le> s \<and> s \<le> 9223372036
      then (case civil_from_days (s div 86400) of
              (y, m, d) \<Rightarrow> Some (pad4 y @ ''-'' @ pad2 m @ ''-'' @ pad2 d))
      else None)"

definition is_digit :: "char \<Rightarrow> bool" where
  "is_digit c \<longleftrightarrow> c \<in> set ''0123456789''"

definition ref_to_numeric_str :: "string \<Rightarrow> f64 option" where
  "ref_to_numeric_str s =
     (if s \<noteq> [] \<and> list_all is_digit s
      then Some (round64 (of_int (foldl (\<lambda>n c. 10 * n + (of_char c - 48)) (0::int) s)))
      else None)"

fun insert_index :: "('k \<Rightarrow> 'k \<Rightarrow> bool) \<Rightarrow> 'k list \<Rightarrow> nat \<Rightarrow> nat list \<Rightarrow> nat list" where
  "insert_index lt ks i [] = [i]"
| "insert_index lt ks i (j # js) =
     (if lt (ks ! i) (ks ! j) then i # j # js else j # insert_index lt ks i js)"

definition ref_argsort_desc :: "string list \<Rightarrow> nat list" where
  "ref_argsort_desc ks = rev (foldl (\<lambda>acc i. insert_index str_lt ks i acc) [] (rev [0..<length ks]))"

definition pair_lt :: "string \<times> string \<Rightarrow> string \<times> string \<Rightarrow> bool" where
  "pair_lt a b \<longleftrightarrow> str_lt (fst a) (fst b) \<or> (fst a = fst b \<and> str_lt (snd a) (snd b))"

definition ref_lexsort :: "(string \<times> string) list \<Rightarrow> nat list" where
  "ref_lexsort ks = foldl (\<lambda>acc i. insert_index pair_lt ks i acc) [] [0..<length ks]"

definition ref_pandas :: pandas where
  "ref_pandas = \<lparr>to_datetime_strftime = ref_to_datetime_strftime,
                 to_numeric_str = ref_to_numeric_str,
                 argsort_desc = ref_argsort_desc,
                 lexsort = ref_lexsort\<rparr>"

section \<open>Concrete inputs\<close>

text \<open>
  Worlds, payloads and upstream servers on which the theorems below are instantiated.
  \<open>sample_points\<close> is the two-point series of the specification's example, one day apart.
\<close>

definition empty_world :: world where
  "empty_world = \<lparr>tvl_cache = Map.empty, cache_time = Map.empty, requests_log = []\<rparr>"

definition const_network :: "http_result \<Rightarrow> network" where
  "const_network r = (\<lambda>url t. r)"

definition sample_points :: payload where
  "sample_points = [\<lparr>raw_date = 1000, raw_tvl = JStr ''100''\<rparr>,
                    \<lparr>raw_date = 87400, raw_tvl = JStr ''110''\<rparr>]"

definition cached_world :: world where
  "cached_world = \<lparr>tvl_cache = [''Ethereum'' \<mapsto> sample_points],
                    cache_time = [''Ethereum'' \<mapsto> 1000],
                    requests_log = []\<rparr>"








definition negative_points :: payload where
  "negative_points = [\<lparr>raw_date = 1000, raw_tvl = JNum (- 5)\<rparr>]"

definition malformed_points :: payload where
  "malformed_points = [\<lparr>raw_date = 1000, raw_tvl = JStr ''n/a''\<rparr>,
                       \<lparr>raw_date = 87400, raw_tvl = JNum 7\<rparr>]"

definition many_points :: payload where
  "many_points = map (\<lambda>i. \<lparr>raw_date = 86400 * i, raw_tvl = JNum (of_int i)\<rparr>) [0..34]"

definition zero_clock :: "string \<Rightarrow> real" where
  "zero_clock c = 0"

text \<open>
  Two upstream servers that answer for a few chains and are unreachable for the others:
  the scenario of the specification with tvl 500 and 250, and one whose middle chain
  carries a tvl that is not a number.
\<close>

definition two_chain_network :: network where
  "two_chain_network url t =
     (if url = API_URL_TEMPLATE ''Ethereum''
      then HttpResponse 200 (Some [\<lparr>raw_date = 1000, raw_tvl = JNum 250\<rparr>])
      else if url = API_URL_TEMPLATE ''Solana''
      then HttpResponse 200 (Some [\<lparr>raw_date = 1000, raw_tvl = JNum 500\<rparr>])
      else NetworkError)"

definition nan_network :: network where
  "nan_network url t =
     (if url = API_URL_TEMPLATE ''Ethereum''
      then HttpResponse 200 (Some [\<lparr>raw_date = 1000, raw_tvl = JNum 1\<rparr>])
      else if url = API_URL_TEMPLATE ''Solana''
      then HttpResponse 200 (Some [\<lparr>raw_date = 1000, raw_tvl = JStr ''n/a''\<rparr>])
      else if url = API_URL_TEMPLATE ''Near''
      then HttpResponse 200 (Some [\<lparr>raw_date = 1000, raw_tvl = JNum 2\<rparr>])
      else NetworkError)"

definition one_point_summary :: "string \<Rightarrow> f64 \<Rightarrow> chain_summary" where
  "one_point_summary c v =
     \<lparr>sm_chain = c, latest_date = ''1970-01-01'', sm_tvl = v,
      tvl_change_24h = Fin 0, tvl_percent_change_24h = Fin 0,
      history = [\<lparr>tp_date = ''1970-01-01'', tp_tvl = v\<rparr>]\<rparr>"

section \<open>The fetcher and its cache\<close>

lemma fetch_hit:
  "cache_hit w now c \<Longrightarrow> fetch_tvl_data net now c w = (tvl_cache w c, w)"
  by (simp add: fetch_tvl_data_def)

lemma fetch_miss_log:
  "\<not> cache_hit w now c \<Longrightarrow>
   requests_log (snd (fetch_tvl_data net now c w)) = requests_log w @ [API_URL_TEMPLATE c]"
  by (simp add: fetch_tvl_data_def Let_def split: http_result.splits option.splits)

lemma fetch_miss_ok:
  assumes "\<not> cache_hit w now c"
      and "net (API_URL_TEMPLATE c) now = HttpResponse st (Some data)"
      and "\<not> raise_for_status st"
  shows "fetch_tvl_data net now c w =
           (Some data,
            w\<lparr>requests_log := requests_log w @ [API_URL_TEMPLATE c],
              tvl_cache := (tvl_cache w)(c \<mapsto> data),
              cache_time := (cache_time w)(c \<mapsto> now)\<rparr>)"
  using assms by (simp add: fetch_tvl_data_def Let_def)

lemma fetch_miss_fail:
  assumes "\<not> cache_hit w now c"
      and "net (API_URL_TEMPLATE c) now = NetworkError \<or>
           (\<exists>st json. net (API_URL_TEMPLATE c) now = HttpResponse st json \<and>
              (raise_for_status st \<or> json = None))"
  shows "fetch_tvl_data net now c w =
           (None, w\<lparr>requests_log := requests_log w @ [API_URL_TEMPLATE c]\<rparr>)"
  using assms by (auto simp add: fetch_tvl_data_def Let_def)

lemma get_tvl_world:
  "snd (get_tvl_for_chain pd net now c w) =
     (if c \<in> set CHAINS then snd (fetch_tvl_data net now c w) else w)"
  by (cases "fetch_tvl_data net now c w")
     (simp add: get_tvl_for_chain_def split: option.splits)

lemma get_tvl_same:
  assumes "c \<in> set CHAINS"
      and "fst (fetch_tvl_data net1 t1 c w1) = fst (fetch_tvl_data net2 t2 c w2)"
  shows "fst (get_tvl_for_chain pd net1 t1 c w1) = fst (get_tvl_for_chain pd net2 t2 c w2)"
proof -
  obtain d u1 where f1: "fetch_tvl_data net1 t1 c w1 = (d, u1)"
    by (cases "fetch_tvl_data net1 t1 c w1")
  obtain d' u2 where f2: "fetch_tvl_data net2 t2 c w2 = (d', u2)"
    by (cases "fetch_tvl_data net2 t2 c w2")
  from assms(2) f1 f2 have "d' = d" by simp
  with assms(1) f1 f2 show ?thesis
    by (simp add: get_tvl_for_chain_def split: option.splits)
qed

lemma get_tvl_falsy:
  assumes "c \<in> set CHAINS"
      and "fst (fetch_tvl_data net now c w) = None \<or> fst (fetch_tvl_data net now c w) = Some []"
  shows "fst (get_tvl_for_chain pd net now c w) =
           (500, ErrorJson (''Failed to fetch data for '' @ c))"
  using assms by (cases "fetch_tvl_data net now c w") (auto simp add: get_tvl_for_chain_def)

text \<open>
  C1. For a chain of the fixed set: a cache entry younger than 3600 seconds is returned
  without a network call; two calls of the single-chain endpoint within 3600 seconds of a
  successful fetch give the same response and issue at most one upstream request between
  them (none when the fetch preceded both, exactly one when the first call performed it);
  and a call made 3600 seconds or more after the entry was fetched issues a new request,
  whatever the cache holds.
\<close>

theorem cache_policy_3600:
  assumes "c \<in> set CHAINS"
  shows "(cache_time u c = Some t0 \<and> ta - t0 < 3600 \<longrightarrow>
            fetch_tvl_data net ta c u = (tvl_cache u c, u))
       \<and> (cache_time u c = Some t0 \<and> tb - t0 < 3600 \<and> tc - t0 < 3600 \<longrightarrow>
            (let (r1, w1) = get_tvl_for_chain pd net tb c u;
                 (r2, w2) = get_tvl_for_chain pd net2 tc c w1
             in r2 = r1 \<and> w1 = u \<and> w2 = u))
       \<and> (\<not> cache_hit w t1 c \<and> net (API_URL_TEMPLATE c) t1 = HttpResponse st (Some data) \<and>
          \<not> raise_for_status st \<and> t2 - t1 < 3600 \<longrightarrow>
            (let (r1, w1) = get_tvl_for_chain pd net t1 c w;
                 (r2, w2) = get_tvl_for_chain pd net2 t2 c w1
             in r2 = r1 \<and> requests_log w2 = requests_log w @ [API_URL_TEMPLATE c]))
       \<and> (cache_time u c = Some t0 \<and> 3600 \<le> td - t0 \<longrightarrow>
            requests_log (snd (get_tvl_for_chain pd net td c u)) =
              requests_log u @ [API_URL_TEMPLATE c])"
proof (intro conjI impI)
  assume "cache_time u c = Some t0 \<and> ta - t0 < 3600"
  then have "cache_hit u ta c" by (simp add: cache_hit_def)
  then show "fetch_tvl_data net ta c u = (tvl_cache u c, u)" by (rule fetch_hit)
next
  assume h: "cache_time u c = Some t0 \<and> tb - t0 < 3600 \<and> tc - t0 < 3600"
  then have hb: "cache_hit u tb c" and hc: "cache_hit u tc c" by (simp_all add: cache_hit_def)
  have w1: "snd (get_tvl_for_chain pd net tb c u) = u"
    using assms hb by (simp add: get_tvl_world fetch_hit)
  have w2: "snd (get_tvl_for_chain pd net2 tc c u) = u"
    using assms hc by (simp add: get_tvl_world fetch_hit)
  have "fst (get_tvl_for_chain pd net2 tc c u) = fst (get_tvl_for_chain pd net tb c u)"
    using assms hb hc by (intro get_tvl_same) (simp_all add: fetch_hit)
  with w1 w2 show "let (r1, w1) = get_tvl_for_chain pd net tb c u;
                       (r2, w2) = get_tvl_for_chain pd net2 tc c w1
                   in r2 = r1 \<and> w1 = u \<and> w2 = u"
    by (simp add: split_beta)
next
  assume h: "\<not> cache_hit w t1 c \<and> net (API_URL_TEMPLATE c) t1 = HttpResponse st (Some data) \<and>
             \<not> raise_for_status st \<and> t2 - t1 < 3600"
  define w1 where "w1 = w\<lparr>requests_log := requests_log w @ [API_URL_TEMPLATE c],
                          tvl_cache := (tvl_cache w)(c \<mapsto> data),
                          cache_time := (cache_time w)(c \<mapsto> t1)\<rparr>"
  from h have h1: "\<not> cache_hit w t1 c"
    and h2: "net (API_URL_TEMPLATE c) t1 = HttpResponse st (Some data)"
    and h3: "\<not> raise_for_status st" and h4: "t2 - t1 < 3600"
    by simp_all
  have f1: "fetch_tvl_data net t1 c w = (Some data, w1)"
    using h1 h2 h3 unfolding w1_def by (simp add: fetch_miss_ok)
  from h4 have hit: "cache_hit w1 t2 c" by (simp add: cache_hit_def w1_def)
  then have f2: "fetch_tvl_data net2 t2 c w1 = (Some data, w1)"
    by (simp add: fetch_hit w1_def)
  have s1: "snd (get_tvl_for_chain pd net t1 c w) = w1"
    using assms f1 by (simp add: get_tvl_world)
  have s2: "snd (get_tvl_for_chain pd net2 t2 c w1) = w1"
    using assms f2 by (simp add: get_tvl_world)
  have "fst (get_tvl_for_chain pd net2 t2 c w1) = fst (get_tvl_for_chain pd net t1 c w)"
    using assms f1 f2 by (intro get_tvl_same) simp_all
  with s1 s2 show "let (r1, w1) = get_tvl_for_chain pd net t1 c w;
                       (r2, w2) = get_tvl_for_chain pd net2 t2 c w1
                   in r2 = r1 \<and> requests_log w2 = requests_log w @ [API_URL_TEMPLATE c]"
    by (simp add: split_beta w1_def)
next
  assume "cache_time u c = Some t0 \<and> 3600 \<le> td - t0"
  then have "\<not> cache_hit u td c" by (simp add: cache_hit_def)
  with assms show "requests_log (snd (get_tvl_for_chain pd net td c u)) =
                     requests_log u @ [API_URL_TEMPLATE c]"
    by (simp add: get_tvl_world fetch_miss_log)
qed

text \<open>An instance of C1 on the chain Ethereum, with a cached and with an empty world.\<close>

theorem cache_policy_3600_witness:
  "''Ethereum'' \<in> set CHAINS
   \<and> cache_time cached_world ''Ethereum'' = Some 1000
   \<and> (1500::real) - 1000 < 3600 \<and> (4599::real) - 1000 < 3600 \<and> (3600::real) \<le> 4600 - 1000
   \<and> fetch_tvl_data (const_network (HttpResponse 200 (Some sample_points))) 1500 ''Ethereum''
        cached_world = (tvl_cache cached_world ''Ethereum'', cached_world)
   \<and> (let (r1, w1) = get_tvl_for_chain ref_pandas
                        (const_network (HttpResponse 200 (Some sample_points))) 1500 ''Ethereum''
                        cached_world;
           (r2, w2) = get_tvl_for_chain ref_pandas (const_network NetworkError) 4599 ''Ethereum'' w1
       in r2 = r1 \<and> w1 = cached_world \<and> w2 = cached_world)
   \<and> \<not> cache_hit empty_world 0 ''Ethereum''
   \<and> \<not> raise_for_status 200
   \<and> (3599::real) - 0 < 3600
   \<and> (let (r1, w1) = get_tvl_for_chain ref_pandas
                        (const_network (HttpResponse 200 (Some sample_points))) 0 ''Ethereum''
                        empty_world;
           (r2, w2) = get_tvl_for_chain ref_pandas (const_network NetworkError) 3599 ''Ethereum'' w1
       in r2 = r1 \<and>
          requests_log w2 = requests_log empty_world @ [API_URL_TEMPLATE ''Ethereum''])
   \<and> requests_log (snd (get_tvl_for_chain ref_pandas
                           (const_network (HttpResponse 200 (Some sample_points))) 4600
                           ''Ethereum'' cached_world)) =
       requests_log cached_world @ [API_URL_TEMPLATE ''Ethereum'']"
proof -
  have c: "''Ethereum'' \<in> set CHAINS" by (simp add: CHAINS_def)
  have t: "cache_time cached_world ''Ethereum'' = Some 1000" by (simp add: cached_world_def)
  have m: "\<not> cache_hit empty_world 0 ''Ethereum''" by (simp add: cache_hit_def empty_world_def)
  have n: "const_network (HttpResponse 200 (Some sample_points)) (API_URL_TEMPLATE ''Ethereum'') 0
             = HttpResponse 200 (Some sample_points)"
    by (simp add: const_network_def)
  have r: "\<not> raise_for_status 200" by (simp add: raise_for_status_def)
  show ?thesis
    using cache_policy_3600 [OF c, where u = cached_world and ?t0.0 = 1000 and ta = 1500
        and tb = 1500 and tc = 4599 and td = 4600 and w = empty_world and ?t1.0 = 0
        and ?t2.0 = 3599 and st = 200 and data = sample_points
        and net = "const_network (HttpResponse 200 (Some sample_points))"
        and ?net2.0 = "const_network NetworkError" and pd = ref_pandas]
      c t m n r
    by simp
qed

section \<open>Single-chain endpoint: rejection and the empty payload\<close>

text \<open>
  C5. The fixed set has 15 chains. For a chain identifier outside it the view function
  \<^verbatim>\<open>get_tvl_for_chain\<close> answers 400 with the invalid-chain body, and the world is
  returned as it was: no fetch, hence no upstream request, took place.
\<close>

theorem invalid_chain_rejected:
  "length CHAINS = 15 \<and>
   (chain_id \<notin> set CHAINS \<longrightarrow>
      get_tvl_for_chain pd net now chain_id w =
        ((400, ErrorJson (''Invalid chain ID. Supported chains: Ethereum, Solana, Near, '' @
                          ''Bitcoin, Sui, Aptos, Arbitrum, Sei, Base, BSC, Polygon, '' @
                          ''Optimism, Fantom, Avalanche, Celo'')), w))"
proof -
  have "join '', '' CHAINS = ''Ethereum, Solana, Near, Bitcoin, Sui, Aptos, Arbitrum, Sei, '' @
                            ''Base, BSC, Polygon, Optimism, Fantom, Avalanche, Celo''"
    by (simp add: CHAINS_def)
  then show ?thesis
    by (simp add: get_tvl_for_chain_def) (simp add: CHAINS_def)
qed

text \<open>An instance of C5 on the identifier Dogecoin.\<close>

theorem invalid_chain_rejected_witness:
  "''Dogecoin'' \<notin> set CHAINS \<and>
   get_tvl_for_chain ref_pandas (const_network (HttpResponse 200 (Some sample_points))) 0
       ''Dogecoin'' empty_world =
     ((400, ErrorJson (''Invalid chain ID. Supported chains: Ethereum, Solana, Near, '' @
                       ''Bitcoin, Sui, Aptos, Arbitrum, Sei, Base, BSC, Polygon, '' @
                       ''Optimism, Fantom, Avalanche, Celo'')), empty_world)"
proof -
  have n: "''Dogecoin'' \<notin> set CHAINS" by (simp add: CHAINS_def)
  show ?thesis
    using invalid_chain_rejected [of "''Dogecoin''" ref_pandas
        "const_network (HttpResponse 200 (Some sample_points))" 0 empty_world] n
    by simp
qed

text \<open>
  C6 as stated fails for a status that is neither 2xx nor 4xx/5xx:
  \<^verbatim>\<open>raise_for_status\<close> lets a final response with status 300 pass, so its JSON body
  is returned and stored, together with the time of the fetch.
\<close>

theorem status_300_counterexample:
  "\<not> (200 \<le> (300::nat) \<and> (300::nat) < 300)
   \<and> tvl_cache empty_world ''Ethereum'' = None
   \<and> cache_time empty_world ''Ethereum'' = None
   \<and> fst (fetch_tvl_data (const_network (HttpResponse 300 (Some sample_points))) 0
            ''Ethereum'' empty_world) = Some sample_points
   \<and> tvl_cache (snd (fetch_tvl_data (const_network (HttpResponse 300 (Some sample_points))) 0
                      ''Ethereum'' empty_world)) ''Ethereum'' = Some sample_points
   \<and> cache_time (snd (fetch_tvl_data (const_network (HttpResponse 300 (Some sample_points))) 0
                       ''Ethereum'' empty_world)) ''Ethereum'' = Some 0"
  by (simp add: fetch_tvl_data_def cache_hit_def empty_world_def const_network_def
                raise_for_status_def)

text \<open>
  C6, amended. When the fetch has to contact upstream and meets a network error, a status
  from 400 to 599, or a body that does not parse, it returns \<open>None\<close> and leaves both
  \<open>tvl_cache\<close> and \<open>cache_time\<close> (of every chain) as they were.
\<close>

theorem fetch_failure_keeps_cache:
  assumes "\<not> cache_hit w now c"
      and "net (API_URL_TEMPLATE c) now = NetworkError
           \<or> (net (API_URL_TEMPLATE c) now = HttpResponse st json
              \<and> ((400 \<le> st \<and> st < 600) \<or> json = None))"
  shows "fst (fetch_tvl_data net now c w) = None
       \<and> tvl_cache (snd (fetch_tvl_data net now c w)) = tvl_cache w
       \<and> cache_time (snd (fetch_tvl_data net now c w)) = cache_time w"
proof -
  have "fetch_tvl_data net now c w =
          (None, w\<lparr>requests_log := requests_log w @ [API_URL_TEMPLATE c]\<rparr>)"
    using assms by (intro fetch_miss_fail) (auto simp add: raise_for_status_def)
  then show ?thesis by simp
qed

text \<open>An instance of the amended C6: a stale entry for Ethereum and a 503 answer.\<close>

theorem fetch_failure_keeps_cache_witness:
  "\<not> cache_hit cached_world 10000 ''Ethereum''
   \<and> const_network (HttpResponse 503 (Some sample_points)) (API_URL_TEMPLATE ''Ethereum'') 10000
       = HttpResponse 503 (Some sample_points)
   \<and> 400 \<le> (503::nat) \<and> (503::nat) < 600
   \<and> fst (fetch_tvl_data (const_network (HttpResponse 503 (Some sample_points))) 10000
            ''Ethereum'' cached_world) = None
   \<and> tvl_cache (snd (fetch_tvl_data (const_network (HttpResponse 503 (Some sample_points)))
                      10000 ''Ethereum'' cached_world)) = tvl_cache cached_world
   \<and> cache_time (snd (fetch_tvl_data (const_network (HttpResponse 503 (Some sample_points)))
                       10000 ''Ethereum'' cached_world)) = cache_time cached_world"
proof -
  have m: "\<not> cache_hit cached_world 10000 ''Ethereum''"
    by (simp add: cache_hit_def cached_world_def)
  have n: "const_network (HttpResponse 503 (Some sample_points))
             (API_URL_TEMPLATE ''Ethereum'') 10000 = HttpResponse 503 (Some sample_points)"
    by (simp add: const_network_def)
  show ?thesis
    using fetch_failure_keeps_cache [where w = cached_world and now = 10000
        and c = "''Ethereum''" and st = 503 and json = "Some sample_points"
        and net = "const_network (HttpResponse 503 (Some sample_points))"] m n
    by simp
qed

text \<open>
  C10. A 2xx answer whose body is the empty array is stored in the cache with the time of
  the fetch; the single-chain endpoint reports it as the 500 fetch failure; and a second
  request within 3600 seconds gets the same 500 from the cached empty payload, with the
  world (and so the list of upstream requests) unchanged, whatever upstream would answer.
\<close>

theorem empty_array_is_cached_fetch_failure:
  assumes "c \<in> set CHAINS"
      and "\<not> cache_hit w t1 c"
      and "net (API_URL_TEMPLATE c) t1 = HttpResponse st (Some [])"
      and "200 \<le> st" and "st < 300"
      and "t2 - t1 < 3600"
  shows "(let (r1, w1) = get_tvl_for_chain pd net t1 c w;
              (r2, w2) = get_tvl_for_chain pd net2 t2 c w1
          in r1 = (500, ErrorJson (''Failed to fetch data for '' @ c))
           \<and> tvl_cache w1 c = Some [] \<and> cache_time w1 c = Some t1
           \<and> requests_log w1 = requests_log w @ [API_URL_TEMPLATE c]
           \<and> r2 = (500, ErrorJson (''Failed to fetch data for '' @ c))
           \<and> w2 = w1)"
proof -
  define w1 where "w1 = w\<lparr>requests_log := requests_log w @ [API_URL_TEMPLATE c],
                          tvl_cache := (tvl_cache w)(c \<mapsto> []),
                          cache_time := (cache_time w)(c \<mapsto> t1)\<rparr>"
  have ok: "\<not> raise_for_status st" using assms(4,5) by (simp add: raise_for_status_def)
  have f1: "fetch_tvl_data net t1 c w = (Some [], w1)"
    using assms(2,3) ok unfolding w1_def by (simp add: fetch_miss_ok)
  have hit: "cache_hit w1 t2 c" using assms(6) by (simp add: cache_hit_def w1_def)
  then have f2: "fetch_tvl_data net2 t2 c w1 = (Some [], w1)"
    by (simp add: fetch_hit w1_def)
  have s1: "snd (get_tvl_for_chain pd net t1 c w) = w1"
    using assms(1) f1 by (simp add: get_tvl_world)
  have s2: "snd (get_tvl_for_chain pd net2 t2 c w1) = w1"
    using assms(1) f2 by (simp add: get_tvl_world)
  have r1: "fst (get_tvl_for_chain pd net t1 c w) =
              (500, ErrorJson (''Failed to fetch data for '' @ c))"
    using assms(1) f1 by (intro get_tvl_falsy) simp_all
  have r2: "fst (get_tvl_for_chain pd net2 t2 c w1) =
              (500, ErrorJson (''Failed to fetch data for '' @ c))"
    using assms(1) f2 by (intro get_tvl_falsy) simp_all
  show ?thesis
    using s1 s2 r1 r2 by (simp add: split_beta) (simp add: w1_def)
qed

text \<open>An instance of C10 on the chain Solana.\<close>

theorem empty_array_is_cached_fetch_failure_witness:
  "''Solana'' \<in> set CHAINS
   \<and> \<not> cache_hit empty_world 0 ''Solana''
   \<and> const_network (HttpResponse 200 (Some [])) (API_URL_TEMPLATE ''Solana'') 0
       = HttpResponse 200 (Some [])
   \<and> (200::nat) \<le> 200 \<and> (200::nat) < 300 \<and> (100::real) - 0 < 3600
   \<and> (let (r1, w1) = get_tvl_for_chain ref_pandas (const_network (HttpResponse 200 (Some [])))
                        0 ''Solana'' empty_world;
           (r2, w2) = get_tvl_for_chain ref_pandas
                        (const_network (HttpResponse 200 (Some sample_points))) 100 ''Solana'' w1
       in r1 = (500, ErrorJson (''Failed to fetch data for '' @ ''Solana''))
        \<and> tvl_cache w1 ''Solana'' = Some [] \<and> cache_time w1 ''Solana'' = Some 0
        \<and> requests_log w1 = requests_log empty_world @ [API_URL_TEMPLATE ''Solana'']
        \<and> r2 = (500, ErrorJson (''Failed to fetch data for '' @ ''Solana''))
        \<and> w2 = w1)"
proof -
  have c: "''Solana'' \<in> set CHAINS" by (simp add: CHAINS_def)
  have m: "\<not> cache_hit empty_world 0 ''Solana''" by (simp add: cache_hit_def empty_world_def)
  have n: "const_network (HttpResponse 200 (Some [])) (API_URL_TEMPLATE ''Solana'') 0
             = HttpResponse 200 (Some [])"
    by (simp add: const_network_def)
  show ?thesis
    using empty_array_is_cached_fetch_failure [where c = "''Solana''" and w = empty_world
        and ?t1.0 = 0 and ?t2.0 = 100 and st = 200 and pd = ref_pandas
        and net = "const_network (HttpResponse 200 (Some []))"
        and ?net2.0 = "const_network (HttpResponse 200 (Some sample_points))"] c m n
    by simp
qed

section \<open>The transformer\<close>

text \<open>
  The theorems of this section hold for every value of the pandas parameters whose
  descending sort returns a descending indexer; they do not depend on the order in which
  that sort leaves rows of equal date.
\<close>

lemma take_rows_valid:
  assumes "valid_indexer indexer (length df)"
  shows "take_rows df indexer = Some (map (nth df) indexer)"
  using assms by (simp add: take_rows_def valid_indexer_def)

lemma take_rows_map:
  "take_rows (map f df) indexer = map_option (map f) (take_rows df indexer)"
  by (simp add: take_rows_def list_all_iff)

lemma sort_values_desc_project:
  "sort_values_desc pd tp_date (map (\<lambda>r. \<lparr>tp_date = date r, tp_tvl = tvl r\<rparr>) df) =
     map_option (map (\<lambda>r. \<lparr>tp_date = date r, tp_tvl = tvl r\<rparr>)) (sort_values_desc pd date df)"
  by (simp add: sort_values_desc_def take_rows_map comp_def)


lemma mset_take_valid:
  assumes "valid_indexer indexer (length df)"
  shows "mset (map (nth df) indexer) = mset df"
proof -
  have "set indexer \<subseteq> {0..<length df}"
    using assms by (auto simp add: valid_indexer_def list_all_iff)
  moreover have "card (set indexer) = length df"
    using assms by (simp add: valid_indexer_def distinct_card)
  ultimately have "set indexer = {0..<length df}"
    by (simp add: card_subset_eq)
  moreover have "distinct indexer" using assms by (simp add: valid_indexer_def)
  ultimately have "mset indexer = mset [0..<length df]"
    by (metis mset_set_set distinct_upt set_upt)
  then have "mset (map (nth df) indexer) = mset (map (nth df) [0..<length df])"
    by (metis mset_map)
  then show ?thesis by (simp add: map_nth)
qed

lemma sort_values_desc_descending:
  assumes "descending_indexer (map key df) (argsort_desc pd (map key df))"
  shows "\<exists>sorted_df. sort_values_desc pd key df = Some sorted_df
           \<and> length sorted_df = length df
           \<and> mset sorted_df = mset df
           \<and> sorted_wrt (\<lambda>a b. \<not> str_lt (key a) (key b)) sorted_df"
proof -
  let ?ix = "argsort_desc pd (map key df)"
  from assms have v: "valid_indexer ?ix (length df)"
    and o: "sorted_wrt (\<lambda>i j. \<not> str_lt (map key df ! i) (map key df ! j)) ?ix"
    by (simp_all add: descending_indexer_def)
  have s: "sort_values_desc pd key df = Some (map (nth df) ?ix)"
    using v by (simp add: sort_values_desc_def take_rows_valid)
  have len: "length ?ix = length df" using v by (simp add: valid_indexer_def)
  have bound: "\<forall>i\<in>set ?ix. i < length df"
    using v by (simp add: valid_indexer_def list_all_iff)
  have "sorted_wrt (\<lambda>i j. \<not> str_lt (key (df ! i)) (key (df ! j))) ?ix"
    by (rule sorted_wrt_mono_rel [OF _ o]) (use bound in auto)
  then have "sorted_wrt (\<lambda>a b. \<not> str_lt (key a) (key b)) (map (nth df) ?ix)"
    by (simp add: sorted_wrt_map)
  with s len mset_take_valid [OF v] show ?thesis by simp
qed


lemma process_tvl_data_Some:
  assumes "process_tvl_data pd data c = Some df"
  shows "data \<noteq> [] \<and> length df = length data
       \<and> df = map (\<lambda>p. \<lparr>date_time = raw_date p,
                          date = the (to_datetime_strftime pd (raw_date p)),
                          chain = c,
                          tvl = to_numeric pd (raw_tvl p)\<rparr>) data"
  using assms by (auto simp add: process_tvl_data_def split: if_splits)

lemma summarize_sorted:
  assumes "sort_values_desc pd date df = Some sorted_df" and "length sorted_df = length df"
      and "df \<noteq> []"
  shows "summarize pd c df =
           Some \<lparr>sm_chain = c,
                 latest_date = date (sorted_df ! 0),
                 sm_tvl = tvl (sorted_df ! 0),
                 tvl_change_24h =
                   (if length df > 1 then fsub (tvl (sorted_df ! 0)) (tvl (sorted_df ! 1))
                    else Fin 0),
                 tvl_percent_change_24h =
                   (if length df > 1
                    then (if fgt (tvl (sorted_df ! 1)) (Fin 0)
                          then fmul (fdiv (fsub (tvl (sorted_df ! 0)) (tvl (sorted_df ! 1)))
                                          (tvl (sorted_df ! 1))) (Fin 100)
                          else Fin 0)
                    else Fin 0),
                 history = take 30 (map (\<lambda>r. \<lparr>tp_date = date r, tp_tvl = tvl r\<rparr>) sorted_df)\<rparr>"
proof -
  have pos: "0 < length sorted_df" using assms(2,3) by simp
  show ?thesis
    using assms(1,2) pos
    by (simp add: summarize_def sort_values_desc_project iloc_def Let_def)
qed



text \<open>
  C8. For a payload of \<open>n\<close> points (\<open>n > 0\<close>, since the frame exists) the history of the
  summary is the first \<open>min 30 n\<close> rows of the frame sorted descending by date, each
  reduced to a \<open>tvl_point\<close>, the record of a date and a tvl and nothing else. The sorted
  frame holds the rows of the frame, each as often as the frame does, and no entry of the
  history is followed by one of a greater date.
\<close>

theorem history_first_30:
  assumes "process_tvl_data pd data c = Some df"
      and "descending_indexer (map date df) (argsort_desc pd (map date df))"
  shows "\<exists>sorted_df s.
           sort_values_desc pd date df = Some sorted_df
         \<and> mset sorted_df = mset df
         \<and> sorted_wrt (\<lambda>a b. \<not> str_lt (date a) (date b)) sorted_df
         \<and> summarize pd c df = Some s
         \<and> history s = map (\<lambda>r. \<lparr>tp_date = date r, tp_tvl = tvl r\<rparr>)
                          (take (min 30 (length data)) sorted_df)
         \<and> length (history s) = min 30 (length data)
         \<and> sorted_wrt (\<lambda>a b. \<not> str_lt (tp_date a) (tp_date b)) (history s)"
proof -
  from assms(1) have ne: "df \<noteq> []" and len: "length df = length data"
    using process_tvl_data_Some [OF assms(1)] by auto
  from sort_values_desc_descending [OF assms(2)] obtain sorted_df
    where s: "sort_values_desc pd date df = Some sorted_df"
      and l: "length sorted_df = length df"
      and m: "mset sorted_df = mset df"
      and o: "sorted_wrt (\<lambda>a b. \<not> str_lt (date a) (date b)) sorted_df"
    by blast
  obtain sv where sm: "summarize pd c df = Some sv"
    and h: "history sv = take 30 (map (\<lambda>r. \<lparr>tp_date = date r, tp_tvl = tvl r\<rparr>) sorted_df)"
    using summarize_sorted [OF s l ne, of c] by simp
  have t: "take 30 sorted_df = take (min 30 (length data)) sorted_df"
    using l len by (simp add: min_def)
  have hm: "history sv = map (\<lambda>r. \<lparr>tp_date = date r, tp_tvl = tvl r\<rparr>)
                          (take (min 30 (length data)) sorted_df)"
    using h t by (simp add: take_map)
  have "sorted_wrt (\<lambda>a b. \<not> str_lt (date a) (date b)) (take (min 30 (length data)) sorted_df)"
    using o by (rule sorted_wrt_take)
  then have hs: "sorted_wrt (\<lambda>a b. \<not> str_lt (tp_date a) (tp_date b)) (history sv)"
    by (simp add: hm sorted_wrt_map)
  show ?thesis
  proof (intro exI [of _ sorted_df] exI [of _ sv] conjI)
    show "sort_values_desc pd date df = Some sorted_df" by (rule s)
    show "mset sorted_df = mset df" by (rule m)
    show "sorted_wrt (\<lambda>a b. \<not> str_lt (date a) (date b)) sorted_df" by (rule o)
    show "summarize pd c df = Some sv" by (rule sm)
    show "history sv = map (\<lambda>r. \<lparr>tp_date = date r, tp_tvl = tvl r\<rparr>)
                         (take (min 30 (length data)) sorted_df)"
      by (rule hm)
    show "length (history sv) = min 30 (length data)"
      using h l len by (simp add: min_def)
    show "sorted_wrt (\<lambda>a b. \<not> str_lt (tp_date a) (tp_date b)) (history sv)" by (rule hs)
  qed
qed

text \<open>An instance of C8: 35 daily points, oldest first, give a history of the 30 most recent,
  newest first.\<close>

theorem history_first_30_witness:
  "process_tvl_data ref_pandas many_points ''Ethereum'' \<noteq> None
   \<and> descending_indexer
       (map date (the (process_tvl_data ref_pandas many_points ''Ethereum'')))
       (argsort_desc ref_pandas
          (map date (the (process_tvl_data ref_pandas many_points ''Ethereum''))))
   \<and> length many_points = 35
   \<and> (\<exists>s. summarize ref_pandas ''Ethereum''
               (the (process_tvl_data ref_pandas many_points ''Ethereum'')) = Some s
          \<and> length (history s) = 30
          \<and> history s ! 0 = \<lparr>tp_date = ''1970-02-04'', tp_tvl = Fin 34\<rparr>
          \<and> history s ! 1 = \<lparr>tp_date = ''1970-02-03'', tp_tvl = Fin 33\<rparr>
          \<and> history s ! 29 = \<lparr>tp_date = ''1970-01-06'', tp_tvl = Fin 5\<rparr>)"
proof -
  let ?df = "the (process_tvl_data ref_pandas many_points ''Ethereum'')"
  have h0: "process_tvl_data ref_pandas many_points ''Ethereum'' \<noteq> None"
    by code_simp
  then have h1: "process_tvl_data ref_pandas many_points ''Ethereum'' = Some ?df"
    by simp
  have h2: "descending_indexer (map date ?df) (argsort_desc ref_pandas (map date ?df))"
    by code_simp
  have n: "length many_points = 35" by code_simp
  have ev: "map_option (\<lambda>s. (history s ! 0, history s ! 1, history s ! 29))
              (summarize ref_pandas ''Ethereum'' ?df) =
            Some (\<lparr>tp_date = ''1970-02-04'', tp_tvl = Fin 34\<rparr>,
                  \<lparr>tp_date = ''1970-02-03'', tp_tvl = Fin 33\<rparr>,
                  \<lparr>tp_date = ''1970-01-06'', tp_tvl = Fin 5\<rparr>)"
    by code_simp
  from history_first_30 [OF h1 h2] obtain s
    where b: "summarize ref_pandas ''Ethereum'' ?df = Some s"
      and c: "length (history s) = min 30 (length many_points)"
    by blast
  from c n have "length (history s) = 30" by simp
  moreover from b ev have "history s ! 0 = \<lparr>tp_date = ''1970-02-04'', tp_tvl = Fin 34\<rparr>"
    "history s ! 1 = \<lparr>tp_date = ''1970-02-03'', tp_tvl = Fin 33\<rparr>"
    "history s ! 29 = \<lparr>tp_date = ''1970-01-06'', tp_tvl = Fin 5\<rparr>"
    by auto
  ultimately show ?thesis using h0 h2 n b by blast
qed

text \<open>
  C9 as stated fails: nothing in the program looks at the sign of a tvl. A raw point with
  tvl \<open>-5\<close> yields a row, a summary and a history entry with tvl \<open>-5\<close>, which is
  present and negative.
\<close>

theorem negative_tvl_counterexample:
  "process_tvl_data ref_pandas negative_points ''Ethereum'' =
     Some [\<lparr>date_time = 1000, date = ''1970-01-01'', chain = ''Ethereum'', tvl = Fin (- 5)\<rparr>]
   \<and> fst (get_tvl_for_chain ref_pandas (const_network (HttpResponse 200 (Some negative_points)))
            0 ''Ethereum'' empty_world) =
       (200, SummaryJson \<lparr>sm_chain = ''Ethereum'', latest_date = ''1970-01-01'',
                          sm_tvl = Fin (- 5), tvl_change_24h = Fin 0,
                          tvl_percent_change_24h = Fin 0,
                          history = [\<lparr>tp_date = ''1970-01-01'', tp_tvl = Fin (- 5)\<rparr>]\<rparr>)
   \<and> \<not> is_nan (Fin (- 5)) \<and> flt (Fin (- 5)) (Fin 0)"
  by code_simp

text \<open>Rounding to float64 keeps a number that is not negative from becoming negative.\<close>

lemma pow2_nat_pos: "0 < pow2_nat e"
  by (induction e rule: pow2_nat.induct) (subst pow2_nat.simps, simp)

lemma pow2_pos: "0 < pow2 e"
  by (simp add: pow2_def pow2_nat_pos)

lemma round_half_even_nonneg: "0 \<le> m \<Longrightarrow> 0 \<le> round_half_even m"
  by (simp add: round_half_even_def Let_def)

lemma round64_nonneg:
  assumes "0 \<le> x"
  shows "fge (round64 x) (Fin 0)"
proof (cases "x = 0")
  case True
  then show ?thesis by (simp add: round64_def fge_def)
next
  case False
  with assms have pos: "0 < x" by simp
  define q where "q = pow2 (max (exponent x) (- 1022) - 52)"
  have q: "0 < q" unfolding q_def by (rule pow2_pos)
  with pos have "0 \<le> x / q" by simp
  then have "0 \<le> round_half_even (x / q)" by (rule round_half_even_nonneg)
  with q have "0 \<le> of_int (round_half_even (x / q)) * q" by simp
  with pos False show ?thesis
    by (simp add: round64_def Let_def fge_def q_def)
qed

text \<open>
  C9, amended. For a non-empty payload whose timestamps convert, the frame exists and has
  one row per raw point, in the order of the payload. The tvl of a row is non-negative
  whenever the raw tvl is a number that is not negative; it is the parsed value for a
  numeric string; and it is NaN (missing) for a string that is not numeric and for null.
  No error is raised and no row is dropped: the summary exists as well, with a history of
  \<open>min 30 n\<close> entries.
\<close>

theorem coercion_keeps_rows:
  assumes "data \<noteq> []"
      and "\<forall>p\<in>set data. to_datetime_strftime pd (raw_date p) \<noteq> None"
  shows "\<exists>df. process_tvl_data pd data c = Some df
             \<and> length df = length data
             \<and> (\<forall>i<length data.
                   date_time (df ! i) = raw_date (data ! i)
                 \<and> (\<forall>x. raw_tvl (data ! i) = JNum x \<and> 0 \<le> x \<longrightarrow> fge (tvl (df ! i)) (Fin 0))
                 \<and> (\<forall>s v. raw_tvl (data ! i) = JStr s \<and> to_numeric_str pd s = Some v
                           \<longrightarrow> tvl (df ! i) = v)
                 \<and> (\<forall>s. raw_tvl (data ! i) = JStr s \<and> to_numeric_str pd s = None
                         \<longrightarrow> is_nan (tvl (df ! i)))
                 \<and> (raw_tvl (data ! i) = JNull \<longrightarrow> is_nan (tvl (df ! i))))
             \<and> (descending_indexer (map date df) (argsort_desc pd (map date df))
                  \<longrightarrow> (\<exists>s. summarize pd c df = Some s
                          \<and> length (history s) = min 30 (length data)))"
proof -
  let ?df = "map (\<lambda>p. \<lparr>date_time = raw_date p,
                        date = the (to_datetime_strftime pd (raw_date p)),
                        chain = c,
                        tvl = to_numeric pd (raw_tvl p)\<rparr>) data"
  have "\<not> list_ex (\<lambda>p. to_datetime_strftime pd (raw_date p) = None) data"
    using assms(2) by (simp add: list_ex_iff)
  with assms(1) have p: "process_tvl_data pd data c = Some ?df"
    by (simp add: process_tvl_data_def)
  have rows: "\<forall>i<length data.
                   date_time (?df ! i) = raw_date (data ! i)
                 \<and> (\<forall>x. raw_tvl (data ! i) = JNum x \<and> 0 \<le> x \<longrightarrow> fge (tvl (?df ! i)) (Fin 0))
                 \<and> (\<forall>s v. raw_tvl (data ! i) = JStr s \<and> to_numeric_str pd s = Some v
                           \<longrightarrow> tvl (?df ! i) = v)
                 \<and> (\<forall>s. raw_tvl (data ! i) = JStr s \<and> to_numeric_str pd s = None
                         \<longrightarrow> is_nan (tvl (?df ! i)))
                 \<and> (raw_tvl (data ! i) = JNull \<longrightarrow> is_nan (tvl (?df ! i)))"
    by (simp add: to_numeric_def round64_nonneg)
  have sm: "\<exists>s. summarize pd c ?df = Some s \<and> length (history s) = min 30 (length data)"
    if "descending_indexer (map date ?df) (argsort_desc pd (map date ?df))"
    using history_first_30 [OF p that] by blast
  show ?thesis
    by (rule exI [of _ ?df]) (use p rows sm in simp)
qed

text \<open>An instance of the amended C9: a payload whose first tvl is the string \<^verbatim>\<open>n/a\<close>.\<close>

theorem coercion_keeps_rows_witness:
  "malformed_points \<noteq> []
   \<and> to_datetime_strftime ref_pandas 1000 \<noteq> None
   \<and> to_datetime_strftime ref_pandas 87400 \<noteq> None
   \<and> raw_tvl (malformed_points ! 0) = JStr ''n/a''
   \<and> to_numeric_str ref_pandas ''n/a'' = None
   \<and> raw_tvl (malformed_points ! 1) = JNum 7
   \<and> (\<exists>df. process_tvl_data ref_pandas malformed_points ''Ethereum'' = Some df
          \<and> length df = 2 \<and> is_nan (tvl (df ! 0)) \<and> fge (tvl (df ! 1)) (Fin 0)
          \<and> descending_indexer (map date df) (argsort_desc ref_pandas (map date df))
          \<and> (\<exists>s. summarize ref_pandas ''Ethereum'' df = Some s \<and> length (history s) = 2))"
proof -
  have ne: "malformed_points \<noteq> []" by (simp add: malformed_points_def)
  have d0: "to_datetime_strftime ref_pandas 1000 \<noteq> None" by code_simp
  have d1: "to_datetime_strftime ref_pandas 87400 \<noteq> None" by code_simp
  have dates: "\<forall>p\<in>set malformed_points. to_datetime_strftime ref_pandas (raw_date p) \<noteq> None"
    using d0 d1 by (simp add: malformed_points_def)
  have r0: "raw_tvl (malformed_points ! 0) = JStr ''n/a''" by (simp add: malformed_points_def)
  have r1: "raw_tvl (malformed_points ! 1) = JNum 7" by (simp add: malformed_points_def)
  have bad: "to_numeric_str ref_pandas ''n/a'' = None" by code_simp
  have l: "length malformed_points = 2" by (simp add: malformed_points_def)
  have ix: "descending_indexer
              (map date (the (process_tvl_data ref_pandas malformed_points ''Ethereum'')))
              (argsort_desc ref_pandas
                 (map date (the (process_tvl_data ref_pandas malformed_points ''Ethereum''))))"
    by code_simp
  from coercion_keeps_rows [OF ne dates, of "''Ethereum''"] obtain df
    where a: "process_tvl_data ref_pandas malformed_points ''Ethereum'' = Some df"
      and b: "length df = length malformed_points"
      and c: "\<forall>i<length malformed_points.
                (\<forall>x. raw_tvl (malformed_points ! i) = JNum x \<and> 0 \<le> x
                     \<longrightarrow> fge (tvl (df ! i)) (Fin 0))
              \<and> (\<forall>s. raw_tvl (malformed_points ! i) = JStr s \<and> to_numeric_str ref_pandas s = None
                      \<longrightarrow> is_nan (tvl (df ! i)))"
      and d: "descending_indexer (map date df) (argsort_desc ref_pandas (map date df))
                \<longrightarrow> (\<exists>s. summarize ref_pandas ''Ethereum'' df = Some s
                        \<and> length (history s) = min 30 (length malformed_points))"
    by blast
  from c l r0 bad have n0: "is_nan (tvl (df ! 0))" by simp
  from c l r1 have n1: "fge (tvl (df ! 1)) (Fin 0)" by simp
  from ix a have ix': "descending_indexer (map date df) (argsort_desc ref_pandas (map date df))"
    by simp
  with d l have "\<exists>s. summarize ref_pandas ''Ethereum'' df = Some s \<and> length (history s) = 2"
    by simp
  with n0 n1 ix' show ?thesis using ne d0 d1 r0 r1 bad a b l by auto
qed

section \<open>Sorting the results\<close>

text \<open>
  When the comparison \<open>lt\<close> agrees with the order of a linearly ordered key on the elements of
  the list, \<open>listsort\<close> returns a permutation of the list that is sorted by the key: the
  run found by \<open>count_run\<close> is sorted, and each binary insertion keeps it so.
\<close>

lemma count_asc_pos: "xs \<noteq> [] \<Longrightarrow> 0 < count_asc lt xs"
  by (induction lt xs rule: count_asc.induct) auto

lemma count_desc_pos: "xs \<noteq> [] \<Longrightarrow> 0 < count_desc lt xs"
  by (induction lt xs rule: count_desc.induct) auto

lemma sorted_asc_run:
  assumes "\<forall>a\<in>set xs. \<forall>b\<in>set xs. lt a b \<longleftrightarrow> k a < (k b :: 'b::linorder)"
  shows "sorted (map k (take (count_asc lt xs) xs))"
  using assms
proof (induction lt xs rule: count_asc.induct)
  case (1 lt x y ys)
  show ?case
  proof (cases "lt y x")
    case True
    then show ?thesis by simp
  next
    case False
    with "1.prems" have xy: "k x \<le> k y" by auto
    from "1.prems" have "\<forall>a\<in>set (y # ys). \<forall>b\<in>set (y # ys). lt a b \<longleftrightarrow> k a < k b"
      by simp
    with "1.IH" False have ih: "sorted (map k (take (count_asc lt (y # ys)) (y # ys)))"
      by blast
    obtain n where n: "count_asc lt (y # ys) = Suc n"
      using count_asc_pos [of "y # ys" lt] by (cases "count_asc lt (y # ys)") auto
    from ih n have "sorted (k y # map k (take n ys))" by simp
    with xy have "sorted (k x # k y # map k (take n ys))"
      by (auto intro: order_trans)
    with False n show ?thesis by simp
  qed
qed simp_all

lemma sorted_desc_run:
  assumes "\<forall>a\<in>set xs. \<forall>b\<in>set xs. lt a b \<longleftrightarrow> k a < (k b :: 'b::linorder)"
  shows "sorted_wrt (\<lambda>a b. b \<le> a) (map k (take (count_desc lt xs) xs))"
  using assms
proof (induction lt xs rule: count_desc.induct)
  case (1 lt x y ys)
  show ?case
  proof (cases "lt y x")
    case False
    then show ?thesis by simp
  next
    case True
    with "1.prems" have xy: "k y \<le> k x" by auto
    from "1.prems" have "\<forall>a\<in>set (y # ys). \<forall>b\<in>set (y # ys). lt a b \<longleftrightarrow> k a < k b"
      by simp
    with "1.IH" True have ih:
      "sorted_wrt (\<lambda>a b. b \<le> a) (map k (take (count_desc lt (y # ys)) (y # ys)))"
      by blast
    obtain n where n: "count_desc lt (y # ys) = Suc n"
      using count_desc_pos [of "y # ys" lt] by (cases "count_desc lt (y # ys)") auto
    from ih n have s: "sorted_wrt (\<lambda>a b. b \<le> a) (k y # map k (take n ys))" by simp
    with xy have "sorted_wrt (\<lambda>a b. b \<le> a) (k x # k y # map k (take n ys))"
      by (auto intro: order_trans)
    with True n show ?thesis by simp
  qed
qed simp_all

lemma bisect_spec:
  assumes "sorted (map k xs)"
      and "\<forall>a\<in>set xs. lt pivot a \<longleftrightarrow> k pivot < (k a :: 'b::linorder)"
      and "r \<le> length xs" and "l \<le> r"
      and "\<forall>i<l. k (xs ! i) \<le> k pivot"
      and "\<forall>i. r \<le> i \<and> i < length xs \<longrightarrow> k pivot < k (xs ! i)"
  shows "bisect lt xs pivot l r \<le> length xs
       \<and> (\<forall>i<bisect lt xs pivot l r. k (xs ! i) \<le> k pivot)
       \<and> (\<forall>i. bisect lt xs pivot l r \<le> i \<and> i < length xs \<longrightarrow> k pivot < k (xs ! i))"
  using assms
proof (induction lt xs pivot l r rule: bisect.induct)
  case (1 lt xs pivot l r)
  show ?case
  proof (cases "l < r")
    case False
    with "1.prems" have "l = r" by simp
    with "1.prems" False show ?thesis by (subst (1 2 3) bisect.simps) simp
  next
    case True
    define p where "p = l + (r - l) div 2"
    from True have lp: "l \<le> p" and pr: "p < r" by (simp_all add: p_def)
    with "1.prems"(3) have plen: "p < length xs" by simp
    then have pin: "xs ! p \<in> set xs" by simp
    have mono: "\<And>i j. i \<le> j \<Longrightarrow> j < length xs \<Longrightarrow> k (xs ! i) \<le> k (xs ! j)"
      using "1.prems"(1) by (simp add: sorted_iff_nth_mono)
    show ?thesis
    proof (cases "lt pivot (xs ! p)")
      case lt: True
      with "1.prems"(2) pin have kp: "k pivot < k (xs ! p)" by blast
      have up: "\<forall>i. p \<le> i \<and> i < length xs \<longrightarrow> k pivot < k (xs ! i)"
        using kp mono by (meson less_le_trans)
      have "p \<le> length xs" using plen by simp
      from "1.IH"(1) [OF True p_def lt "1.prems"(1) "1.prems"(2) this lp "1.prems"(5) up]
      show ?thesis
        using True lt by (subst (1 2 3) bisect.simps) (simp add: p_def Let_def)
    next
      case ge: False
      with "1.prems"(2) pin have kp: "k (xs ! p) \<le> k pivot" by auto
      have lo: "\<forall>i<p + 1. k (xs ! i) \<le> k pivot"
      proof (intro allI impI)
        fix i assume "i < p + 1"
        then have "i \<le> p" by simp
        from mono [OF this plen] kp show "k (xs ! i) \<le> k pivot" by simp
      qed
      have "p + 1 \<le> r" using pr by simp
      from "1.IH"(2) [OF True p_def ge "1.prems"(1) "1.prems"(2) "1.prems"(3) this lo "1.prems"(6)]
      show ?thesis
        using True ge by (subst (1 2 3) bisect.simps) (simp add: p_def Let_def)
    qed
  qed
qed

lemma sorted_binary_insert:
  assumes "sorted (map k xs)"
      and "\<forall>a\<in>set xs. lt pivot a \<longleftrightarrow> k pivot < (k a :: 'b::linorder)"
  shows "sorted (map k (binary_insert lt xs pivot))"
proof -
  define j where "j = bisect lt xs pivot 0 (length xs)"
  have spec: "j \<le> length xs \<and> (\<forall>i<j. k (xs ! i) \<le> k pivot)
            \<and> (\<forall>i. j \<le> i \<and> i < length xs \<longrightarrow> k pivot < k (xs ! i))"
    unfolding j_def using assms by (intro bisect_spec) auto
  have s1: "sorted (map k (take j xs))" and s2: "sorted (map k (drop j xs))"
    using assms(1) by (simp_all add: sorted_wrt_take sorted_wrt_drop flip: take_map drop_map)
  have lo: "\<forall>a\<in>set (take j xs). k a \<le> k pivot"
    using spec by (auto simp add: in_set_conv_nth)
  have hi: "\<forall>b\<in>set (drop j xs). k pivot \<le> k b"
  proof
    fix b assume "b \<in> set (drop j xs)"
    then obtain i where "i < length xs - j" and "b = drop j xs ! i"
      by (auto simp add: in_set_conv_nth)
    then have "b = xs ! (j + i)" and "j + i < length xs" using spec by simp_all
    with spec show "k pivot \<le> k b" by (simp add: less_imp_le)
  qed
  have "sorted (map k (take j xs) @ k pivot # map k (drop j xs))"
    using s1 s2 lo hi by (auto simp add: sorted_append intro: order_trans)
  then show ?thesis by (simp add: binary_insert_def j_def Let_def)
qed

lemma mset_binary_insert: "mset (binary_insert lt xs pivot) = add_mset pivot (mset xs)"
proof -
  have "mset (take j xs) + mset (drop j xs) = mset xs" for j
    by (metis append_take_drop_id mset_append)
  then show ?thesis by (simp add: binary_insert_def Let_def)
qed

lemma mset_binarysort: "mset (binarysort lt run rest) = mset run + mset rest"
  unfolding binarysort_def
  by (induction rest arbitrary: run) (simp_all add: mset_binary_insert)

lemma sorted_binarysort:
  assumes "sorted (map k run)"
      and "\<forall>a\<in>set run \<union> set rest. \<forall>b\<in>set run \<union> set rest. lt a b \<longleftrightarrow> k a < (k b :: 'b::linorder)"
  shows "sorted (map k (binarysort lt run rest))"
  using assms unfolding binarysort_def
proof (induction rest arbitrary: run)
  case Nil
  then show ?case by simp
next
  case (Cons p rest)
  have s: "sorted (map k (binary_insert lt run p))"
    using Cons.prems by (intro sorted_binary_insert) auto
  have "set (binary_insert lt run p) = insert p (set run)"
    using mset_binary_insert [of lt run p] by (metis set_mset_add_mset_insert set_mset_mset)
  with Cons.prems(2)
  have "\<forall>a\<in>set (binary_insert lt run p) \<union> set rest.
          \<forall>b\<in>set (binary_insert lt run p) \<union> set rest. lt a b \<longleftrightarrow> k a < k b"
    by auto
  from Cons.IH [OF s this] show ?case by simp
qed

lemma mset_listsort: "mset (listsort lt xs) = mset xs"
proof -
  have "mset (take n xs) + mset (drop n xs) = mset xs" for n
    by (metis append_take_drop_id mset_append)
  then show ?thesis
    by (simp add: listsort_def mset_binarysort split_beta Let_def)
qed

lemma sorted_listsort:
  assumes "\<forall>a\<in>set xs. \<forall>b\<in>set xs. lt a b \<longleftrightarrow> k a < (k b :: 'b::linorder)"
  shows "sorted (map k (listsort lt xs))"
proof -
  obtain n d where cr: "count_run lt xs = (n, d)" by (cases "count_run lt xs")
  define run where "run = (if d then rev (take n xs) else take n xs)"
  have run_sorted: "sorted (map k run)"
  proof (cases xs)
    case Nil
    with cr show ?thesis by (simp add: run_def count_run_def)
  next
    case (Cons x xs')
    show ?thesis
    proof (cases xs')
      case Nil
      with Cons cr show ?thesis by (auto simp add: run_def count_run_def)
    next
      case (Cons y ys)
      show ?thesis
      proof (cases "lt y x")
        case True
        with cr \<open>xs = x # xs'\<close> Cons have "n = count_desc lt xs" and "d"
          by (simp_all add: count_run_def)
        with sorted_desc_run [OF assms] show ?thesis
          by (simp add: run_def sorted_wrt_rev flip: rev_map)
      next
        case False
        with cr \<open>xs = x # xs'\<close> Cons have "n = count_asc lt xs" and "\<not> d"
          by (simp_all add: count_run_def)
        with sorted_asc_run [OF assms] show ?thesis by (simp add: run_def)
      qed
    qed
  qed
  have "set run \<union> set (drop n xs) \<subseteq> set xs"
    by (auto simp add: run_def dest: in_set_takeD in_set_dropD)
  with assms have rel: "\<forall>a\<in>set run \<union> set (drop n xs). \<forall>b\<in>set run \<union> set (drop n xs).
                          lt a b \<longleftrightarrow> k a < k b"
    by (meson subsetD)
  from sorted_binarysort [OF run_sorted rel] cr show ?thesis
    by (simp add: listsort_def run_def)
qed

lemma mset_list_sort_reverse: "mset (list_sort_reverse key xs) = mset xs"
  by (simp add: list_sort_reverse_def mset_listsort)

lemma flt_rank: "\<not> is_nan x \<Longrightarrow> \<not> is_nan y \<Longrightarrow> flt x y \<longleftrightarrow> rank x < rank y"
  by (cases x; cases y) simp_all

lemma fge_rank: "\<not> is_nan x \<Longrightarrow> \<not> is_nan y \<Longrightarrow> fge x y \<longleftrightarrow> rank y \<le> rank x"
  by (cases x; cases y) (auto simp add: fge_def)

lemma sorted_list_sort_reverse:
  assumes "\<forall>a\<in>set xs. \<not> is_nan (key a)"
  shows "sorted_wrt (\<lambda>a b. fge (key a) (key b)) (list_sort_reverse key xs)"
proof -
  let ?lt = "\<lambda>a b. flt (key a) (key b)"
  let ?k = "\<lambda>a. rank (key a)"
  have "\<forall>a\<in>set (rev xs). \<forall>b\<in>set (rev xs). ?lt a b \<longleftrightarrow> ?k a < ?k b"
    using assms by (simp add: flt_rank)
  from sorted_listsort [OF this]
  have "sorted (map ?k (listsort ?lt (rev xs)))" .
  then have "sorted_wrt (\<lambda>a b. ?k a \<le> ?k b) (listsort ?lt (rev xs))"
    by (simp add: sorted_wrt_map)
  then have a: "sorted_wrt (\<lambda>a b. ?k b \<le> ?k a) (list_sort_reverse key xs)"
    by (simp add: list_sort_reverse_def sorted_wrt_rev)
  have b: "\<forall>a\<in>set (list_sort_reverse key xs). \<not> is_nan (key a)"
    using assms mset_list_sort_reverse [of key xs] by (metis set_mset_mset)
  show ?thesis
    by (rule sorted_wrt_mono_rel [OF _ a]) (use b in \<open>auto simp add: fge_rank\<close>)
qed

section \<open>The multi-chain endpoints\<close>

lemma collect_results_eq:
  "collect_results pd futures cs (rs, tot) =
     (rs @ List.map_filter (\<lambda>c. chain_result pd c (future_result futures c)) cs,
      foldl fadd tot
        (map sm_tvl (List.map_filter (\<lambda>c. chain_result pd c (future_result futures c)) cs)))"
  by (induction cs arbitrary: rs tot) (simp_all add: List.map_filter_simps split: option.splits)

lemma get_all_tvl_eq:
  "get_all_tvl pd net clock completed now_str w =
     ((200, AllJson
         \<lparr>timestamp = now_str,
          total_tvl = foldl fadd (Fin 0)
            (map sm_tvl
               (List.map_filter
                  (\<lambda>c. chain_result pd c (future_result (fst (fetch_all net clock CHAINS w)) c))
                  completed)),
          chains = list_sort_reverse sm_tvl
            (List.map_filter
               (\<lambda>c. chain_result pd c (future_result (fst (fetch_all net clock CHAINS w)) c))
               completed)\<rparr>),
      snd (fetch_all net clock CHAINS w))"
  by (simp add: get_all_tvl_def collect_results_eq split_beta)

lemma map_filter_all_None: "(\<forall>x\<in>set xs. f x = None) \<Longrightarrow> List.map_filter f xs = []"
  by (induction xs) (simp_all add: List.map_filter_simps)

lemma fails_chain_result:
  "fetch_or_transform_fails pd c data \<Longrightarrow> chain_result pd c data = None"
  by (auto simp add: fetch_or_transform_fails_def chain_result_def)

lemma fails_chain_csv:
  "fetch_or_transform_fails pd c data \<Longrightarrow> chain_csv pd c data = None"
  by (auto simp add: fetch_or_transform_fails_def chain_csv_def)

lemma list_sort_reverse_Nil: "list_sort_reverse key [] = []"
  by (simp add: list_sort_reverse_def listsort_def count_run_def binarysort_def)

text \<open>
  C3. When for every chain the fetch returns no data or \<^verbatim>\<open>process_tvl_data\<close> returns
  no frame, the all-chains JSON endpoint answers 200 with an empty \<open>chains\<close> list and
  \<open>total_tvl = 0\<close>, while the CSV endpoint answers 500 with the body
  \<^verbatim>\<open>{error: "No data available to export"}\<close>.
\<close>

theorem all_fail_asymmetry:
  assumes "mset completed = mset CHAINS"
      and "\<forall>c\<in>set CHAINS.
             fetch_or_transform_fails pd c (future_result (fst (fetch_all net clock CHAINS w)) c)"
  shows "get_all_tvl pd net clock completed now_str w =
           ((200, AllJson \<lparr>timestamp = now_str, total_tvl = Fin 0, chains = []\<rparr>),
            snd (fetch_all net clock CHAINS w))
       \<and> get_tvl_csv pd net clock completed w =
           ((500, ErrorJson ''No data available to export''),
            snd (fetch_all net clock CHAINS w))"
proof -
  let ?futures = "fst (fetch_all net clock CHAINS w)"
  from assms(1) have "set completed = set CHAINS" by (metis set_mset_mset)
  with assms(2)
  have f: "\<forall>c\<in>set completed. fetch_or_transform_fails pd c (future_result ?futures c)"
    by simp
  then have "List.map_filter (\<lambda>c. chain_result pd c (future_result ?futures c)) completed = []"
    by (intro map_filter_all_None) (simp add: fails_chain_result)
  then have a: "get_all_tvl pd net clock completed now_str w =
                  ((200, AllJson \<lparr>timestamp = now_str, total_tvl = Fin 0, chains = []\<rparr>),
                   snd (fetch_all net clock CHAINS w))"
    by (simp add: get_all_tvl_eq list_sort_reverse_Nil)
  from f have "List.map_filter (\<lambda>c. chain_csv pd c (future_result ?futures c)) completed = []"
    by (intro map_filter_all_None) (simp add: fails_chain_csv)
  then have b: "get_tvl_csv pd net clock completed w =
                  ((500, ErrorJson ''No data available to export''),
                   snd (fetch_all net clock CHAINS w))"
    by (simp add: get_tvl_csv_def split_beta)
  from a b show ?thesis by simp
qed

text \<open>An instance of C3: upstream is unreachable for all fifteen chains.\<close>

theorem all_fail_asymmetry_witness:
  "mset (rev CHAINS) = mset CHAINS
   \<and> list_all (\<lambda>c. fetch_or_transform_fails ref_pandas c
                     (future_result
                        (fst (fetch_all (const_network NetworkError) zero_clock CHAINS
                                empty_world)) c)) CHAINS
   \<and> fst (get_all_tvl ref_pandas (const_network NetworkError) zero_clock (rev CHAINS)
            ''2026-01-01 00:00:00'' empty_world) =
       (200, AllJson \<lparr>timestamp = ''2026-01-01 00:00:00'', total_tvl = Fin 0, chains = []\<rparr>)
   \<and> fst (get_tvl_csv ref_pandas (const_network NetworkError) zero_clock (rev CHAINS)
            empty_world) =
       (500, ErrorJson ''No data available to export'')"
proof -
  have p: "mset (rev CHAINS) = mset CHAINS" by simp
  have l: "list_all (\<lambda>c. fetch_or_transform_fails ref_pandas c
                     (future_result
                        (fst (fetch_all (const_network NetworkError) zero_clock CHAINS
                                empty_world)) c)) CHAINS"
    by code_simp
  then have h: "\<forall>c\<in>set CHAINS. fetch_or_transform_fails ref_pandas c
                     (future_result
                        (fst (fetch_all (const_network NetworkError) zero_clock CHAINS
                                empty_world)) c)"
    by (simp add: list_all_iff)
  show ?thesis
    using all_fail_asymmetry [OF p h, of "''2026-01-01 00:00:00''"] p l by simp
qed

text \<open>
  Let \<open>results\<close> be the summaries of the chains that succeeded, in the order of
  completion. The response lists a permutation of exactly these summaries; its
  \<open>total_tvl\<close> is the float64 sum of their tvl fields, added up from 0 in the order of
  completion; and when none of these tvl is NaN the list is sorted descending by tvl, as the
  comment above \<^verbatim>\<open>results.sort\<close> says.
\<close>

theorem all_chains_sorted_and_totalled:
  "(let futures = fst (fetch_all net clock CHAINS w);
        results = List.map_filter (\<lambda>c. chain_result pd c (future_result futures c)) completed;
        sorted_results = list_sort_reverse sm_tvl results
    in get_all_tvl pd net clock completed now_str w =
         ((200, AllJson \<lparr>timestamp = now_str,
                         total_tvl = foldl fadd (Fin 0) (map sm_tvl results),
                         chains = sorted_results\<rparr>),
          snd (fetch_all net clock CHAINS w))
     \<and> mset sorted_results = mset results
     \<and> ((\<forall>r\<in>set results. \<not> is_nan (sm_tvl r)) \<longrightarrow> sorted_desc_by_tvl sorted_results))"
  by (simp add: Let_def get_all_tvl_eq mset_list_sort_reverse sorted_desc_by_tvl_def
                sorted_list_sort_reverse)

text \<open>
  The scenario of the specification: two chains with tvl 250 and 500 give
  \<open>total_tvl = 750\<close> and the chain with 500 first.
\<close>

theorem all_chains_sorted_and_totalled_witness:
  "list_all (\<lambda>r. \<not> is_nan (sm_tvl r))
     (List.map_filter
        (\<lambda>c. chain_result ref_pandas c
               (future_result (fst (fetch_all two_chain_network zero_clock CHAINS empty_world)) c))
        CHAINS)
   \<and> fst (get_all_tvl ref_pandas two_chain_network zero_clock CHAINS ''2026-01-01 00:00:00''
            empty_world) =
       (200, AllJson \<lparr>timestamp = ''2026-01-01 00:00:00'', total_tvl = Fin 750,
                       chains = [one_point_summary ''Solana'' (Fin 500),
                                 one_point_summary ''Ethereum'' (Fin 250)]\<rparr>)
   \<and> sorted_desc_by_tvl [one_point_summary ''Solana'' (Fin 500),
                          one_point_summary ''Ethereum'' (Fin 250)]"
proof -
  let ?results = "List.map_filter
        (\<lambda>c. chain_result ref_pandas c
               (future_result (fst (fetch_all two_chain_network zero_clock CHAINS empty_world)) c))
        CHAINS"
  have l: "list_all (\<lambda>r. \<not> is_nan (sm_tvl r)) ?results" by code_simp
  then have h: "\<forall>r\<in>set ?results. \<not> is_nan (sm_tvl r)" by (simp add: list_all_iff)
  have ev: "list_sort_reverse sm_tvl ?results =
              [one_point_summary ''Solana'' (Fin 500), one_point_summary ''Ethereum'' (Fin 250)]"
    by code_simp
  have tot: "foldl fadd (Fin 0) (map sm_tvl ?results) = Fin 750" by code_simp
  note inst = all_chains_sorted_and_totalled [of two_chain_network zero_clock empty_world
      ref_pandas CHAINS "''2026-01-01 00:00:00''", unfolded Let_def]
  have g: "get_all_tvl ref_pandas two_chain_network zero_clock CHAINS ''2026-01-01 00:00:00''
             empty_world =
           ((200, AllJson \<lparr>timestamp = ''2026-01-01 00:00:00'',
                           total_tvl = foldl fadd (Fin 0) (map sm_tvl ?results),
                           chains = list_sort_reverse sm_tvl ?results\<rparr>),
            snd (fetch_all two_chain_network zero_clock CHAINS empty_world))"
    and s: "(\<forall>r\<in>set ?results. \<not> is_nan (sm_tvl r)) \<longrightarrow>
            sorted_desc_by_tvl (list_sort_reverse sm_tvl ?results)"
    using inst by blast+
  from s h have "sorted_desc_by_tvl (list_sort_reverse sm_tvl ?results)" by blast
  with g l show ?thesis by (simp only: ev tot fst_conv simp_thms)
qed

text \<open>
  C7. The chains list of the all-chains response is to be sorted descending by tvl, and
  \<open>total_tvl\<close> to be the sum of the tvl fields of the included summaries. The program
  misses both when a summary's tvl is NaN. Ethereum, Solana and Near complete in this order
  with tvl 1, NaN (the latest raw tvl is the string \<^verbatim>\<open>n/a\<close>, which
  \<^verbatim>\<open>errors='coerce'\<close> turns into NaN) and 2. Every comparison with NaN is false, so
  \<^verbatim>\<open>list.sort\<close> takes the list for one run and leaves it as it is: the summary with
  tvl 1 stays before the one with tvl 2, and the total is NaN.
\<close>

theorem nan_tvl_leaves_chains_unsorted:
  "fst (get_all_tvl ref_pandas nan_network zero_clock CHAINS ''2026-01-01 00:00:00''
          empty_world) =
     (200, AllJson \<lparr>timestamp = ''2026-01-01 00:00:00'', total_tvl = NaN,
                     chains = [one_point_summary ''Ethereum'' (Fin 1),
                               one_point_summary ''Solana'' NaN,
                               one_point_summary ''Near'' (Fin 2)]\<rparr>)
   \<and> \<not> sorted_desc_by_tvl [one_point_summary ''Ethereum'' (Fin 1),
                            one_point_summary ''Solana'' NaN,
                            one_point_summary ''Near'' (Fin 2)]
   \<and> flt (sm_tvl (one_point_summary ''Ethereum'' (Fin 1)))
         (sm_tvl (one_point_summary ''Near'' (Fin 2)))"
  by code_simp

end
